theory Spec2Isabelle
  imports Complex_Main "HOL-Library.Sublist"
begin

section \<open>Conventions\<close>

text \<open>
  The development embeds the resilience and state layer of the questionnaire bot:
  \<^verbatim>\<open>security_manager.py\<close>, \<^verbatim>\<open>validation_layer.py\<close>, \<^verbatim>\<open>error_handler.py\<close> and
  \<^verbatim>\<open>conversation_handler.py\<close>.

  \<^item> A Python \<^verbatim>\<open>datetime\<close> is an \<open>int\<close>: the number of microseconds since a fixed
    origin (the resolution of \<^verbatim>\<open>datetime\<close>); a \<^verbatim>\<open>timedelta\<close> is an \<open>int\<close> number of
    microseconds. Every \<^verbatim>\<open>datetime.now()\<close> is an explicit argument of the operation
    that reads the clock.
  \<^item> A Python \<^verbatim>\<open>str\<close> is a \<open>string\<close> whose characters are the code points below 256.
  \<^item> A Python \<^verbatim>\<open>int\<close> is an \<open>int\<close>.
  \<^item> Objects mutated in place are records passed in and returned updated; a
    \<^verbatim>\<open>dict\<close> is a map.
  \<^item> Calls to the \<^verbatim>\<open>logging\<close> module and to the injected logging system only write
    log lines; they are left out.
\<close>

definition seconds :: "int \<Rightarrow> int" where
  "seconds n = n * 1000000"

definition minutes :: "int \<Rightarrow> int" where
  "minutes n = n * 60000000"

definition hours :: "int \<Rightarrow> int" where
  "hours n = n * 3600000000"

section \<open>Rendering integers (\<^verbatim>\<open>str(n)\<close>, f-strings)\<close>

definition digit_char :: "nat \<Rightarrow> char" where
  "digit_char d = ''0123456789'' ! d"

fun str_nat :: "nat \<Rightarrow> string" where
  "str_nat n = (if n < 10 then [digit_char n] else str_nat (n div 10) @ [digit_char (n mod 10)])"

definition str_int :: "int \<Rightarrow> string" where
  "str_int i = (if i < 0 then CHR ''-'' # str_nat (nat (- i)) else str_nat (nat i))"

section \<open>Strings\<close>

text \<open>
  \<^verbatim>\<open>str.lower\<close> on the code points below 256: the letters A to Z and the capital
  letters from 0xC0 to 0xDE (0xD7, the multiplication sign, is not a letter) move to
  the letter 32 positions later.
\<close>

definition upper_case_letters :: string where
  "upper_case_letters = ''ABCDEFGHIJKLMNOPQRSTUVWXYZ'' @ [CHR 0xC0, CHR 0xC1, CHR 0xC2, CHR 0xC3, CHR 0xC4, CHR 0xC5, CHR 0xC6, CHR 0xC7, CHR 0xC8, CHR 0xC9, CHR 0xCA, CHR 0xCB, CHR 0xCC, CHR 0xCD, CHR 0xCE, CHR 0xCF, CHR 0xD0, CHR 0xD1, CHR 0xD2, CHR 0xD3, CHR 0xD4, CHR 0xD5, CHR 0xD6, CHR 0xD8, CHR 0xD9, CHR 0xDA, CHR 0xDB, CHR 0xDC, CHR 0xDD, CHR 0xDE]"

definition lower_case_letters :: string where
  "lower_case_letters = ''abcdefghijklmnopqrstuvwxyz'' @ [CHR 0xE0, CHR 0xE1, CHR 0xE2, CHR 0xE3, CHR 0xE4, CHR 0xE5, CHR 0xE6, CHR 0xE7, CHR 0xE8, CHR 0xE9, CHR 0xEA, CHR 0xEB, CHR 0xEC, CHR 0xED, CHR 0xEE, CHR 0xEF, CHR 0xF0, CHR 0xF1, CHR 0xF2, CHR 0xF3, CHR 0xF4, CHR 0xF5, CHR 0xF6, CHR 0xF8, CHR 0xF9, CHR 0xFA, CHR 0xFB, CHR 0xFC, CHR 0xFD, CHR 0xFE]"

definition lower_char :: "char \<Rightarrow> char" where
  "lower_char c =
     (case map_of (zip upper_case_letters lower_case_letters) c of
        Some l \<Rightarrow> l
      | None \<Rightarrow> c)"

definition py_lower :: "string \<Rightarrow> string" where
  "py_lower s = map lower_char s"

text \<open>\<^verbatim>\<open>sub in s\<close> on strings.\<close>

fun py_in :: "string \<Rightarrow> string \<Rightarrow> bool" where
  "py_in sub [] = (sub = [])"
| "py_in sub (c # cs) = (prefix sub (c # cs) \<or> py_in sub cs)"

text \<open>
  White space as \<^verbatim>\<open>str.strip\<close>, \<^verbatim>\<open>str.isspace\<close> and the class \<^verbatim>\<open>\s\<close> of \<^verbatim>\<open>re\<close> have
  it: the controls 9 to 13 and 28 to 31, the space, 0x85 and 0xA0.
\<close>

definition is_space :: "char \<Rightarrow> bool" where
  "is_space c =
     (let n = of_char c :: nat
      in (9 \<le> n \<and> n \<le> 13) \<or> (28 \<le> n \<and> n \<le> 32) \<or> n = 133 \<or> n = 160)"

definition py_strip :: "string \<Rightarrow> string" where
  "py_strip s = rev (dropWhile is_space (rev (dropWhile is_space s)))"

text \<open>
  The class \<^verbatim>\<open>\w\<close> of \<^verbatim>\<open>re\<close> on \<^verbatim>\<open>str\<close>: the underscore and the alphanumeric
  characters (\<^verbatim>\<open>str.isalnum\<close>).
\<close>

definition is_word_char :: "char \<Rightarrow> bool" where
  "is_word_char c =
     (let n = of_char c :: nat
      in (48 \<le> n \<and> n \<le> 57) \<or> (65 \<le> n \<and> n \<le> 90) \<or> n = 95 \<or> (97 \<le> n \<and> n \<le> 122)
         \<or> n = 170 \<or> n = 178 \<or> n = 179 \<or> n = 181 \<or> n = 185 \<or> n = 186
         \<or> (188 \<le> n \<and> n \<le> 190) \<or> (192 \<le> n \<and> n \<le> 214) \<or> (216 \<le> n \<and> n \<le> 246)
         \<or> (248 \<le> n \<and> n \<le> 255))"

definition is_digit :: "char \<Rightarrow> bool" where
  "is_digit c = (let n = of_char c :: nat in 48 \<le> n \<and> n \<le> 57)"

text \<open>
  \<^verbatim>\<open>int(text)\<close> in base 10; \<open>None\<close> stands for \<^verbatim>\<open>ValueError\<close>. The literal may be
  surrounded by white space, may carry one sign, and single underscores may separate
  its digits. The white space that \<^verbatim>\<open>int\<close> skips is the controls 9 to 13, the space,
  0x85 and 0xA0; unlike \<^verbatim>\<open>str.strip\<close>, it does not skip the controls 28 to 31.
\<close>

definition is_int_space :: "char \<Rightarrow> bool" where
  "is_int_space c =
     (let n = of_char c :: nat
      in (9 \<le> n \<and> n \<le> 13) \<or> n = 32 \<or> n = 133 \<or> n = 160)"

fun digits_ok :: "string \<Rightarrow> bool" where
  "digits_ok [] = False"
| "digits_ok [c] = is_digit c"
| "digits_ok (c # d # cs) =
     (if is_digit c then (if d = CHR ''_'' then digits_ok cs else digits_ok (d # cs))
      else False)"

definition digits_value :: "string \<Rightarrow> int" where
  "digits_value ds =
     foldl (\<lambda>acc c. 10 * acc + (int (of_char c) - 48)) 0 (filter (\<lambda>c. c \<noteq> CHR ''_'') ds)"

definition parse_digits :: "string \<Rightarrow> int option" where
  "parse_digits ds = (if digits_ok ds then Some (digits_value ds) else None)"

definition py_int :: "string \<Rightarrow> int option" where
  "py_int text =
     (case rev (dropWhile is_int_space (rev (dropWhile is_int_space text))) of
        [] \<Rightarrow> None
      | c # cs \<Rightarrow>
          if c = CHR ''-'' then map_option uminus (parse_digits cs)
          else if c = CHR ''+'' then parse_digits cs
          else parse_digits (c # cs))"

text \<open>
  The values of \<^verbatim>\<open>float\<close>. The function \<^verbatim>\<open>float(text)\<close> itself, with its rounding
  to the nearest double, is an argument \<open>py_float\<close> of the validators (\<open>None\<close>:
  \<^verbatim>\<open>ValueError\<close>).
\<close>

datatype float_value = Finite real | Infinite bool | NaN

fun float_between :: "real \<Rightarrow> float_value \<Rightarrow> real \<Rightarrow> bool" where
  "float_between lo (Finite x) hi = (lo \<le> x \<and> x \<le> hi)"
| "float_between lo (Infinite b) hi = False"
| "float_between lo NaN hi = False"

section \<open>Security manager: data model\<close>

datatype InputType = AGE | BODY_FAT | SCALE_1_5 | YES_NO | EXERCISE_FREQUENCY | FREE_TEXT

datatype SecurityEventType =
  MALICIOUS_INPUT | RATE_LIMIT_EXCEEDED | INVALID_INPUT_REPEATED | SUSPICIOUS_PATTERN

datatype SecuritySeverity = LOW | MEDIUM | HIGH | CRITICAL

text \<open>
  The values stored in the \<^verbatim>\<open>additional_data\<close> dictionaries of the events and in
  the free-form answers of a session.
\<close>

datatype py_value = VInt int | VBool bool | VStr string

record ValidationResult =
  is_valid :: bool
  error_message :: "string option"
  help_message :: "string option"
  suggested_format :: "string option"

record SecurityEvent =
  ev_user_id :: int
  event_type :: SecurityEventType
  description :: string
  timestamp :: int
  severity :: SecuritySeverity
  additional_data :: "(string \<times> py_value) list option"

record RateLimitInfo =
  rl_user_id :: int
  requests_count :: int
  window_start :: int
  is_blocked :: bool
  block_until :: "int option"

record SecurityManager =
  rate_limit_per_minute :: int
  rate_limit_data :: "int \<rightharpoonup> RateLimitInfo"
  security_events :: "SecurityEvent list"
  user_error_counts :: "int \<rightharpoonup> (string \<rightharpoonup> int)"

text \<open>\<^verbatim>\<open>SecurityManager.__init__\<close>.\<close>

definition new_security_manager :: "int \<Rightarrow> SecurityManager" where
  "new_security_manager limit =
     \<lparr>rate_limit_per_minute = limit, rate_limit_data = Map.empty,
      security_events = [], user_error_counts = Map.empty\<rparr>"

section \<open>Security events\<close>

text \<open>
  \<^verbatim>\<open>log_security_event\<close>: append, then keep the slice \<^verbatim>\<open>[-1000:]\<close> when the list
  has grown beyond 1000 entries.
\<close>

definition log_security_event :: "SecurityEvent \<Rightarrow> SecurityManager \<Rightarrow> SecurityManager" where
  "log_security_event event sm =
     (let events = security_events sm @ [event]
      in if length events > 1000
         then sm\<lparr>security_events := drop (length events - 1000) events\<rparr>
         else sm\<lparr>security_events := events\<rparr>)"

text \<open>A sequence of calls of \<^verbatim>\<open>log_security_event\<close>, in order.\<close>

fun log_security_events :: "SecurityEvent list \<Rightarrow> SecurityManager \<Rightarrow> SecurityManager" where
  "log_security_events [] sm = sm"
| "log_security_events (e # es) sm = log_security_events es (log_security_event e sm)"

section \<open>Rate limiter\<close>

text \<open>
  \<^verbatim>\<open>check_rate_limit\<close>, with the clock reading \<open>current_time\<close> as an argument. The
  result is the returned flag and the manager after the call.
\<close>

definition check_rate_limit :: "int \<Rightarrow> int \<Rightarrow> SecurityManager \<Rightarrow> bool \<times> SecurityManager" where
  "check_rate_limit current_time user_id sm =
     (let rate_info = (case rate_limit_data sm user_id of
                         None \<Rightarrow> \<lparr>rl_user_id = user_id, requests_count = 0,
                                  window_start = current_time, is_blocked = False,
                                  block_until = None\<rparr>
                       | Some r \<Rightarrow> r);
          sm1 = sm\<lparr>rate_limit_data := (rate_limit_data sm)(user_id \<mapsto> rate_info)\<rparr>
      in case (if is_blocked rate_info then block_until rate_info else None) of
           Some until \<Rightarrow>
             if current_time < until then (False, sm1)
             else (True, sm1\<lparr>rate_limit_data := (rate_limit_data sm1)(user_id \<mapsto>
                     rate_info\<lparr>is_blocked := False, block_until := None,
                               requests_count := 1, window_start := current_time\<rparr>)\<rparr>)
         | None \<Rightarrow>
             (let r1 = (if current_time - window_start rate_info > minutes 1
                        then (let r0 = rate_info\<lparr>requests_count := 0,
                                                  window_start := current_time\<rparr>
                              in if is_blocked r0
                                 then r0\<lparr>is_blocked := False, block_until := None\<rparr>
                                 else r0)
                        else rate_info);
                  r2 = r1\<lparr>requests_count := requests_count r1 + 1\<rparr>
              in if requests_count r2 > rate_limit_per_minute sm
                 then (let block_minutes =
                             min (requests_count r2 - rate_limit_per_minute sm) 60;
                           r3 = r2\<lparr>is_blocked := True,
                                   block_until := Some (current_time + minutes block_minutes)\<rparr>;
                           sm2 = sm1\<lparr>rate_limit_data := (rate_limit_data sm1)(user_id \<mapsto> r3)\<rparr>
                       in (False,
                           log_security_event
                             \<lparr>ev_user_id = user_id, event_type = RATE_LIMIT_EXCEEDED,
                              description = ''Rate limit exceeded: '' @
                                str_int (requests_count r3) @ '' requests in 1 minute'',
                              timestamp = current_time, severity = MEDIUM,
                              additional_data = Some
                                [(''requests_count'', VInt (requests_count r3)),
                                 (''block_minutes'', VInt block_minutes)]\<rparr>
                             sm2))
                 else (True, sm1\<lparr>rate_limit_data := (rate_limit_data sm1)(user_id \<mapsto> r2)\<rparr>)))"

text \<open>
  Consecutive admission checks of one identity at the given clock readings; the
  result lists the flag returned by each call, and gives the manager after the last.
\<close>

fun check_rate_limit_calls ::
  "int list \<Rightarrow> int \<Rightarrow> SecurityManager \<Rightarrow> bool list \<times> SecurityManager" where
  "check_rate_limit_calls [] user_id sm = ([], sm)"
| "check_rate_limit_calls (t # ts) user_id sm =
     (case check_rate_limit t user_id sm of
        (ok, sm') \<Rightarrow> (case check_rate_limit_calls ts user_id sm' of
                        (oks, sm'') \<Rightarrow> (ok # oks, sm'')))"

section \<open>Regular expressions of the malicious patterns\<close>

text \<open>
  The patterns use literals, the classes \<^verbatim>\<open>.\<close>, \<^verbatim>\<open>[^>]\<close>, \<^verbatim>\<open>\w\<close> and \<^verbatim>\<open>\s\<close>, and the
  quantifiers \<^verbatim>\<open>*\<close>, \<^verbatim>\<open>+\<close> and \<^verbatim>\<open>*?\<close> on one character class. A compiled pattern is
  the list of its items. Matching is under \<^verbatim>\<open>re.IGNORECASE\<close>: a literal matches a
  character with the same lower case. \<^verbatim>\<open>re.search\<close> yields a match exactly when the
  pattern matches at some position, which is what \<open>re_search\<close> decides; a lazy
  quantifier matches at the same positions as the greedy one.
\<close>

datatype char_class = Lit char | AnyChar | NotChar char | Word | Space

datatype quantifier = Once | ZeroOrMore | OneOrMore

type_synonym regex = "(char_class \<times> quantifier) list"

fun class_matches :: "char_class \<Rightarrow> char \<Rightarrow> bool" where
  "class_matches (Lit l) c = (lower_char c = lower_char l)"
| "class_matches AnyChar c = (c \<noteq> CHR 0x0A)"
| "class_matches (NotChar l) c = (lower_char c \<noteq> lower_char l)"
| "class_matches Word c = is_word_char c"
| "class_matches Space c = is_space c"

definition lits :: "string \<Rightarrow> regex" where
  "lits s = map (\<lambda>c. (Lit c, Once)) s"

fun match_here :: "regex \<Rightarrow> string \<Rightarrow> bool" where
  "match_here [] s = True"
| "match_here ((cls, Once) # ps) s =
     (case s of [] \<Rightarrow> False
      | c # cs \<Rightarrow> if class_matches cls c then match_here ps cs else False)"
| "match_here ((cls, ZeroOrMore) # ps) s =
     (if match_here ps s then True
      else (case s of [] \<Rightarrow> False
            | c # cs \<Rightarrow> if class_matches cls c then match_here ((cls, ZeroOrMore) # ps) cs
                       else False))"
| "match_here ((cls, OneOrMore) # ps) s =
     (case s of [] \<Rightarrow> False
      | c # cs \<Rightarrow> if class_matches cls c then match_here ((cls, ZeroOrMore) # ps) cs
                 else False)"

fun re_search :: "regex \<Rightarrow> string \<Rightarrow> bool" where
  "re_search p [] = match_here p []"
| "re_search p (c # cs) = (if match_here p (c # cs) then True else re_search p cs)"

text \<open>
  \<^verbatim>\<open>self.malicious_patterns\<close>: each pattern with its source text (which the security
  event quotes) and its compiled form.
\<close>

definition malicious_patterns :: "(string \<times> regex) list" where
  "malicious_patterns = [
      (''<script[^>]*>.*?</script>'',
         lits (''<script'') @ [(NotChar (CHR ''>''), ZeroOrMore)] @ lits (''>'') @ [(AnyChar, ZeroOrMore)] @ lits (''</script>'')),
      (''javascript:'',
         lits (''javascript:'')),
      (''on'' @ [CHR 0x5C] @ ''w+'' @ [CHR 0x5C] @ ''s*='',
         lits (''on'') @ [(Word, OneOrMore)] @ [(Space, ZeroOrMore)] @ lits (''='')),
      (''<iframe[^>]*>'',
         lits (''<iframe'') @ [(NotChar (CHR ''>''), ZeroOrMore)] @ lits (''>'')),
      (''<object[^>]*>'',
         lits (''<object'') @ [(NotChar (CHR ''>''), ZeroOrMore)] @ lits (''>'')),
      (''<embed[^>]*>'',
         lits (''<embed'') @ [(NotChar (CHR ''>''), ZeroOrMore)] @ lits (''>'')),
      (''eval'' @ [CHR 0x5C] @ ''s*'' @ [CHR 0x5C] @ ''('',
         lits (''eval'') @ [(Space, ZeroOrMore)] @ lits (''('')),
      (''document'' @ [CHR 0x5C] @ ''.'',
         lits (''document.'')),
      (''window'' @ [CHR 0x5C] @ ''.'',
         lits (''window.'')),
      ([CHR 0x5C] @ ''.innerHTML'',
         lits (''.innerHTML'')),
      (''SELECT.*FROM'',
         lits (''SELECT'') @ [(AnyChar, ZeroOrMore)] @ lits (''FROM'')),
      (''UNION.*SELECT'',
         lits (''UNION'') @ [(AnyChar, ZeroOrMore)] @ lits (''SELECT'')),
      (''DROP.*TABLE'',
         lits (''DROP'') @ [(AnyChar, ZeroOrMore)] @ lits (''TABLE'')),
      (''INSERT.*INTO'',
         lits (''INSERT'') @ [(AnyChar, ZeroOrMore)] @ lits (''INTO'')),
      (''UPDATE.*SET'',
         lits (''UPDATE'') @ [(AnyChar, ZeroOrMore)] @ lits (''SET'')),
      (''DELETE.*FROM'',
         lits (''DELETE'') @ [(AnyChar, ZeroOrMore)] @ lits (''FROM'')),
      ([CHR 0x5C] @ ''.'' @ [CHR 0x5C] @ ''./.*'',
         lits (''../'') @ [(AnyChar, ZeroOrMore)]),
      ([CHR 0x5C] @ ''.'' @ [CHR 0x5C] @ ''.'' @ [CHR 0x5C, CHR 0x5C] @ ''.*'',
         lits (''..'') @ [(Lit (CHR 0x5C), Once)] @ [(AnyChar, ZeroOrMore)]),
      (''/etc/passwd'',
         lits (''/etc/passwd'')),
      (''/etc/shadow'',
         lits (''/etc/shadow'')),
      ([CHR 0x5C] @ ''.'' @ [CHR 0x5C] @ ''./'',
         lits (''../'')),
      ([CHR 0x5C] @ ''.'' @ [CHR 0x5C] @ ''.'' @ [CHR 0x5C, CHR 0x5C],
         lits (''..'') @ [(Lit (CHR 0x5C), Once)]),
      ([CHR 0x5C] @ ''$'' @ [CHR 0x5C] @ ''{jndi:'',
         lits (''${jndi:'')),
      ([CHR 0x5C] @ ''{'' @ [CHR 0x5C] @ ''{.*'' @ [CHR 0x5C] @ ''}'' @ [CHR 0x5C] @ ''}'',
         lits (''{{'') @ [(AnyChar, ZeroOrMore)] @ lits (''}}'')),
      (''<%.*%>'',
         lits (''<%'') @ [(AnyChar, ZeroOrMore)] @ lits (''%>'')),
      (''<'' @ [CHR 0x5C] @ ''?.*'' @ [CHR 0x5C] @ ''?>'',
         lits (''<?'') @ [(AnyChar, ZeroOrMore)] @ lits (''?>''))]"

section \<open>Sanitization\<close>

fun html_escape_char :: "char \<Rightarrow> string" where
  "html_escape_char c =
     (if c = CHR ''&'' then ''&amp;''
      else if c = CHR ''<'' then ''&lt;''
      else if c = CHR ''>'' then ''&gt;''
      else if c = CHR 0x22 then ''&quot;''
      else if c = CHR 0x27 then ''&#x27;''
      else [c])"

definition html_escape :: "string \<Rightarrow> string" where
  "html_escape s = concat (map html_escape_char s)"

text \<open>\<^verbatim>\<open>re.sub(r'\s+', ' ', text)\<close>: every maximal run of white space becomes one space.\<close>

function collapse_whitespace :: "string \<Rightarrow> string" where
  "collapse_whitespace [] = []"
| "collapse_whitespace (c # cs) =
     (if is_space c then CHR '' '' # collapse_whitespace (dropWhile is_space cs)
      else c # collapse_whitespace cs)"
  by pat_completeness auto
termination
  by (relation "measure length") (auto simp: length_dropWhile_le less_Suc_eq_le)

definition sanitize_input :: "string \<Rightarrow> string" where
  "sanitize_input text =
     (let text1 = filter (\<lambda>c. c \<noteq> CHR 0x00) text;
          text2 = html_escape text1;
          text3 = py_strip (collapse_whitespace text2)
      in if length text3 > 1000 then take 1000 text3 else text3)"

section \<open>Validation of input\<close>

text \<open>\<^verbatim>\<open>_track_validation_error\<close>, with the clock reading \<open>now\<close> for the event.\<close>

definition get_user_error_count :: "SecurityManager \<Rightarrow> int \<Rightarrow> string \<Rightarrow> int" where
  "get_user_error_count sm user_id error_type =
     (case user_error_counts sm user_id of
        None \<Rightarrow> 0
      | Some counts \<Rightarrow> (case counts error_type of None \<Rightarrow> 0 | Some n \<Rightarrow> n))"

definition track_validation_error ::
  "int \<Rightarrow> string \<Rightarrow> int \<Rightarrow> SecurityManager \<Rightarrow> SecurityManager" where
  "track_validation_error user_id error_type now sm =
     (let counts0 = (case user_error_counts sm user_id of None \<Rightarrow> Map.empty | Some m \<Rightarrow> m);
          count0 = (case counts0 error_type of None \<Rightarrow> 0 | Some n \<Rightarrow> n);
          count1 = count0 + 1;
          sm1 = sm\<lparr>user_error_counts :=
                    (user_error_counts sm)(user_id \<mapsto> counts0(error_type \<mapsto> count1))\<rparr>
      in if count1 = 5
         then log_security_event
                \<lparr>ev_user_id = user_id, event_type = INVALID_INPUT_REPEATED,
                 description = ''Repeated validation errors for '' @ error_type @ '': '' @
                   str_int count1,
                 timestamp = now, severity = LOW,
                 additional_data = Some [(''error_type'', VStr error_type),
                                         (''count'', VInt count1)]\<rparr>
                sm1
         else sm1)"

text \<open>
  \<^verbatim>\<open>_detect_malicious_input\<close>: the first pattern, in the order of the list, that is
  found in the lower-cased text; the event keeps the first 100 characters of the
  text.
\<close>

fun first_match :: "(string \<times> regex) list \<Rightarrow> string \<Rightarrow> (string \<times> regex) option" where
  "first_match [] text_lower = None"
| "first_match (pattern # patterns) text_lower =
     (if re_search (snd pattern) text_lower then Some pattern
      else first_match patterns text_lower)"

definition malicious_input_event :: "string \<Rightarrow> int \<Rightarrow> int \<Rightarrow> string \<Rightarrow> SecurityEvent" where
  "malicious_input_event text user_id now pattern =
     \<lparr>ev_user_id = user_id, event_type = MALICIOUS_INPUT,
      description = ''Malicious pattern detected: '' @ pattern,
      timestamp = now, severity = HIGH,
      additional_data = Some [(''input'', VStr (take 100 text)),
                              (''pattern'', VStr pattern)]\<rparr>"

definition detect_malicious_input ::
  "string \<Rightarrow> int \<Rightarrow> int \<Rightarrow> SecurityManager \<Rightarrow> bool \<times> SecurityManager" where
  "detect_malicious_input text user_id now sm =
     (let text_lower = py_lower text
      in case first_match malicious_patterns text_lower of
           Some pattern \<Rightarrow>
             (True, log_security_event (malicious_input_event text user_id now (fst pattern)) sm)
         | None \<Rightarrow> (False, sm))"

definition valid_result :: ValidationResult where
  "valid_result =
     \<lparr>is_valid = True, error_message = None, help_message = None, suggested_format = None\<rparr>"

definition malicious_result :: ValidationResult where
  "malicious_result =
     \<lparr>is_valid = False,
        error_message = Some (''Entrada no v'' @ [CHR 0xE1] @ ''lida detectada.''),
        help_message = Some (''Por favor, introduce solo texto normal sin caracteres especiales.''),
        suggested_format = None\<rparr>"

definition validate_age ::
  "string \<Rightarrow> int \<Rightarrow> int \<Rightarrow> SecurityManager \<Rightarrow> ValidationResult \<times> SecurityManager" where
  "validate_age text user_id now sm =
     (case py_int text of
        Some age \<Rightarrow>
          if 18 \<le> age \<and> age \<le> 120 then (valid_result, sm)
          else (\<lparr>is_valid = False,
        error_message = Some (''La edad debe estar entre 18 y 120 a'' @ [CHR 0xF1] @ ''os.''),
        help_message = Some (''Introduce tu edad como un n'' @ [CHR 0xFA] @ ''mero entero (ej: 25).''),
        suggested_format = Some (''Ejemplo: 30'')\<rparr>,
                track_validation_error user_id ''age'' now sm)
      | None \<Rightarrow>
          (\<lparr>is_valid = False,
        error_message = Some (''Por favor, introduce un n'' @ [CHR 0xFA] @ ''mero v'' @ [CHR 0xE1] @ ''lido para la edad.''),
        help_message = Some (''La edad debe ser un n'' @ [CHR 0xFA] @ ''mero entero entre 18 y 120.''),
        suggested_format = Some (''Ejemplo: 30'')\<rparr>,
           track_validation_error user_id ''age'' now sm))"

definition validate_body_fat ::
  "(string \<Rightarrow> float_value option) \<Rightarrow> string \<Rightarrow> int \<Rightarrow> int \<Rightarrow> SecurityManager
     \<Rightarrow> ValidationResult \<times> SecurityManager" where
  "validate_body_fat py_float text user_id now sm =
     (let clean_text = py_strip (filter (\<lambda>c. c \<noteq> CHR ''%'') text)
      in case py_float clean_text of
           Some fat \<Rightarrow>
             if float_between 0 fat 50 then (valid_result, sm)
             else (\<lparr>is_valid = False,
        error_message = Some (''El porcentaje de grasa corporal debe estar entre 0% y 50%.''),
        help_message = Some (''Introduce un n'' @ [CHR 0xFA] @ ''mero entre 0 y 50 (sin el s'' @ [CHR 0xED] @ ''mbolo %).''),
        suggested_format = Some (''Ejemplo: 15'')\<rparr>,
                   track_validation_error user_id ''body_fat'' now sm)
         | None \<Rightarrow>
             (\<lparr>is_valid = False,
        error_message = Some (''Por favor, introduce un n'' @ [CHR 0xFA] @ ''mero v'' @ [CHR 0xE1] @ ''lido para el porcentaje de grasa corporal.''),
        help_message = Some (''Debe ser un n'' @ [CHR 0xFA] @ ''mero entre 0 y 50.''),
        suggested_format = Some (''Ejemplo: 15'')\<rparr>,
              track_validation_error user_id ''body_fat'' now sm))"

definition validate_scale_1_5 ::
  "string \<Rightarrow> int \<Rightarrow> int \<Rightarrow> SecurityManager \<Rightarrow> ValidationResult \<times> SecurityManager" where
  "validate_scale_1_5 text user_id now sm =
     (case py_int text of
        Some score \<Rightarrow>
          if 1 \<le> score \<and> score \<le> 5 then (valid_result, sm)
          else (\<lparr>is_valid = False,
        error_message = Some (''Por favor, introduce un n'' @ [CHR 0xFA] @ ''mero entre 1 y 5.''),
        help_message = Some (''1=Muy bajo/Ninguno, 2=Leve, 3=Moderado, 4=Severo, 5=Muy severo''),
        suggested_format = Some (''Ejemplo: 3'')\<rparr>,
                track_validation_error user_id ''scale_1_5'' now sm)
      | None \<Rightarrow>
          (\<lparr>is_valid = False,
        error_message = Some (''Por favor, introduce solo un n'' @ [CHR 0xFA] @ ''mero del 1 al 5.''),
        help_message = Some (''Debe ser un n'' @ [CHR 0xFA] @ ''mero entero entre 1 y 5.''),
        suggested_format = Some (''Ejemplo: 3'')\<rparr>,
           track_validation_error user_id ''scale_1_5'' now sm))"

definition validate_yes_no ::
  "string \<Rightarrow> int \<Rightarrow> int \<Rightarrow> SecurityManager \<Rightarrow> ValidationResult \<times> SecurityManager" where
  "validate_yes_no text user_id now sm =
     (let text_lower = py_strip (py_lower text);
          valid_yes = [''s'' @ [CHR 0xED], ''si'', ''yes'', ''y'', ''s''];
          valid_no = [''no'', ''n'']
      in if text_lower \<in> set valid_yes \<or> text_lower \<in> set valid_no then (valid_result, sm)
         else (\<lparr>is_valid = False,
        error_message = Some (''Por favor, responde '' @ [CHR 0x27] @ ''S'' @ [CHR 0xED, CHR 0x27] @ '' o '' @ [CHR 0x27] @ ''No'' @ [CHR 0x27] @ ''.''),
        help_message = Some (''Respuestas v'' @ [CHR 0xE1] @ ''lidas: S'' @ [CHR 0xED] @ '', Si, No, S, N''),
        suggested_format = Some (''Ejemplo: S'' @ [CHR 0xED])\<rparr>,
               track_validation_error user_id ''yes_no'' now sm))"

definition validate_exercise_frequency ::
  "string \<Rightarrow> int \<Rightarrow> int \<Rightarrow> SecurityManager \<Rightarrow> ValidationResult \<times> SecurityManager" where
  "validate_exercise_frequency text user_id now sm =
     (case py_int text of
        Some frequency \<Rightarrow>
          if 0 \<le> frequency \<and> frequency \<le> 7 then (valid_result, sm)
          else (\<lparr>is_valid = False,
        error_message = Some (''La frecuencia de ejercicio debe estar entre 0 y 7 veces por semana.''),
        help_message = Some (''Introduce el n'' @ [CHR 0xFA] @ ''mero de veces que haces ejercicio por semana.''),
        suggested_format = Some (''Ejemplo: 3'')\<rparr>,
                track_validation_error user_id ''exercise_frequency'' now sm)
      | None \<Rightarrow>
          (\<lparr>is_valid = False,
        error_message = Some (''Por favor, introduce un n'' @ [CHR 0xFA] @ ''mero v'' @ [CHR 0xE1] @ ''lido para la frecuencia de ejercicio.''),
        help_message = Some (''Debe ser un n'' @ [CHR 0xFA] @ ''mero entre 0 y 7.''),
        suggested_format = Some (''Ejemplo: 3'')\<rparr>,
           track_validation_error user_id ''exercise_frequency'' now sm))"

definition validate_free_text ::
  "string \<Rightarrow> int \<Rightarrow> int \<Rightarrow> SecurityManager \<Rightarrow> ValidationResult \<times> SecurityManager" where
  "validate_free_text text user_id now sm =
     (if length text > 100 then
        (\<lparr>is_valid = False,
        error_message = Some (''El texto es demasiado largo. M'' @ [CHR 0xE1] @ ''ximo 100 caracteres.''),
        help_message = Some (''Por favor, acorta tu respuesta.''),
        suggested_format = Some (''M'' @ [CHR 0xE1] @ ''ximo 100 caracteres'')\<rparr>,
         track_validation_error user_id ''free_text'' now sm)
      else if length (py_strip text) = 0 then
        (\<lparr>is_valid = False,
        error_message = Some (''Por favor, introduce alg'' @ [CHR 0xFA] @ ''n texto.''),
        help_message = Some (''La respuesta no puede estar vac'' @ [CHR 0xED] @ ''a.''),
        suggested_format = None\<rparr>,
         track_validation_error user_id ''free_text'' now sm)
      else (valid_result, sm))"

text \<open>
  \<^verbatim>\<open>validate_input\<close>. The clock is read once in a call, for the event of the
  malicious-pattern stage or for the one of the error counter. The last \<^verbatim>\<open>else\<close> of the
  source cannot be reached with a member of \<^verbatim>\<open>InputType\<close>.
\<close>

definition validate_input ::
  "(string \<Rightarrow> float_value option) \<Rightarrow> string \<Rightarrow> InputType \<Rightarrow> int \<Rightarrow> int \<Rightarrow> SecurityManager
     \<Rightarrow> ValidationResult \<times> SecurityManager" where
  "validate_input py_float text input_type user_id now sm =
     (case detect_malicious_input text user_id now sm of
        (True, sm1) \<Rightarrow> (malicious_result, sm1)
      | (False, sm1) \<Rightarrow>
          (let sanitized_text = sanitize_input text
           in case input_type of
                AGE \<Rightarrow> validate_age sanitized_text user_id now sm1
              | BODY_FAT \<Rightarrow> validate_body_fat py_float sanitized_text user_id now sm1
              | SCALE_1_5 \<Rightarrow> validate_scale_1_5 sanitized_text user_id now sm1
              | YES_NO \<Rightarrow> validate_yes_no sanitized_text user_id now sm1
              | EXERCISE_FREQUENCY \<Rightarrow> validate_exercise_frequency sanitized_text user_id now sm1
              | FREE_TEXT \<Rightarrow> validate_free_text sanitized_text user_id now sm1))"

text \<open>The key of the error counter that the validator of an input type increments.\<close>

fun error_type_of :: "InputType \<Rightarrow> string" where
  "error_type_of AGE = ''age''"
| "error_type_of BODY_FAT = ''body_fat''"
| "error_type_of SCALE_1_5 = ''scale_1_5''"
| "error_type_of YES_NO = ''yes_no''"
| "error_type_of EXERCISE_FREQUENCY = ''exercise_frequency''"
| "error_type_of FREE_TEXT = ''free_text''"

text \<open>The event that \<^verbatim>\<open>_track_validation_error\<close> logs at the fifth error.\<close>

definition repeated_input_event :: "int \<Rightarrow> string \<Rightarrow> int \<Rightarrow> SecurityEvent" where
  "repeated_input_event user_id error_type now =
     \<lparr>ev_user_id = user_id, event_type = INVALID_INPUT_REPEATED,
      description = ''Repeated validation errors for '' @ error_type @ '': 5'',
      timestamp = now, severity = LOW,
      additional_data = Some [(''error_type'', VStr error_type), (''count'', VInt 5)]\<rparr>"

section \<open>Validation layer\<close>

datatype QuestionType =
  ADAM_YES_NO | AMS_SCALE | LIFESTYLE_AGE | LIFESTYLE_BODY_FAT | LIFESTYLE_SLEEP_QUALITY
  | LIFESTYLE_STRESS_LEVEL | LIFESTYLE_EXERCISE_FREQUENCY | LIFESTYLE_ALCOHOL_TOBACCO

record ValidationConfig =
  max_retries_before_help :: int
  max_retries_before_progressive_help :: int
  enable_progressive_assistance :: bool
  enable_format_suggestions :: bool

definition default_ValidationConfig :: ValidationConfig where
  "default_ValidationConfig =
     \<lparr>max_retries_before_help = 3, max_retries_before_progressive_help = 5,
      enable_progressive_assistance = True, enable_format_suggestions = True\<rparr>"

record EnhancedValidationResult = ValidationResult +
  retry_count :: int
  progressive_help :: "string option"
  examples :: "string list option"
  is_progressive_help_triggered :: bool

text \<open>
  The message tables of the layer (the dictionaries written out in
  \<^verbatim>\<open>get_format_examples\<close>, \<^verbatim>\<open>_get_base_help_message\<close>, \<^verbatim>\<open>_get_additional_help\<close> and
  \<^verbatim>\<open>_get_progressive_help\<close>, and the three texts of \<^verbatim>\<open>_get_specific_guidance\<close>) hold
  characters beyond code point 255; they are data, and the functions take them as the
  argument \<open>texts\<close>.
\<close>

record HelpTexts =
  format_examples :: "QuestionType \<Rightarrow> string list"
  base_help_message :: "QuestionType \<Rightarrow> string"
  additional_help :: "QuestionType \<Rightarrow> string"
  progressive_help_message :: "QuestionType \<Rightarrow> string"
  guidance_second_failure :: string
  guidance_third_failure :: string
  guidance_later_failures :: string

record ValidationLayer =
  security_manager :: SecurityManager
  config :: ValidationConfig
  user_retry_counts :: "int \<rightharpoonup> (QuestionType \<rightharpoonup> int)"

text \<open>\<^verbatim>\<open>ValidationLayer.__init__\<close> with the default configuration.\<close>

definition new_validation_layer :: "SecurityManager \<Rightarrow> ValidationLayer" where
  "new_validation_layer sm =
     \<lparr>security_manager = sm, config = default_ValidationConfig,
      user_retry_counts = Map.empty\<rparr>"

fun question_type_mapping :: "QuestionType \<Rightarrow> InputType" where
  "question_type_mapping ADAM_YES_NO = YES_NO"
| "question_type_mapping AMS_SCALE = SCALE_1_5"
| "question_type_mapping LIFESTYLE_AGE = AGE"
| "question_type_mapping LIFESTYLE_BODY_FAT = BODY_FAT"
| "question_type_mapping LIFESTYLE_SLEEP_QUALITY = SCALE_1_5"
| "question_type_mapping LIFESTYLE_STRESS_LEVEL = SCALE_1_5"
| "question_type_mapping LIFESTYLE_EXERCISE_FREQUENCY = EXERCISE_FREQUENCY"
| "question_type_mapping LIFESTYLE_ALCOHOL_TOBACCO = YES_NO"

definition get_retry_count :: "ValidationLayer \<Rightarrow> int \<Rightarrow> QuestionType \<Rightarrow> int" where
  "get_retry_count vl user_id question_type =
     (case user_retry_counts vl user_id of
        None \<Rightarrow> 0
      | Some counts \<Rightarrow> (case counts question_type of None \<Rightarrow> 0 | Some n \<Rightarrow> n))"

definition increment_retry_count :: "int \<Rightarrow> QuestionType \<Rightarrow> ValidationLayer \<Rightarrow> ValidationLayer" where
  "increment_retry_count user_id question_type vl =
     (let counts = (case user_retry_counts vl user_id of None \<Rightarrow> Map.empty | Some m \<Rightarrow> m);
          current_count = (case counts question_type of None \<Rightarrow> 0 | Some n \<Rightarrow> n)
      in vl\<lparr>user_retry_counts :=
              (user_retry_counts vl)(user_id \<mapsto> counts(question_type \<mapsto> current_count + 1))\<rparr>)"

definition reset_retry_count :: "int \<Rightarrow> QuestionType \<Rightarrow> ValidationLayer \<Rightarrow> ValidationLayer" where
  "reset_retry_count user_id question_type vl =
     (case user_retry_counts vl user_id of
        None \<Rightarrow> vl
      | Some counts \<Rightarrow>
          vl\<lparr>user_retry_counts :=
               (user_retry_counts vl)(user_id \<mapsto> counts(question_type := None))\<rparr>)"

definition get_help_message :: "ValidationConfig \<Rightarrow> HelpTexts \<Rightarrow> QuestionType \<Rightarrow> int \<Rightarrow> string" where
  "get_help_message cfg texts question_type retry_count' =
     (let base_help = base_help_message texts question_type
      in if retry_count' \<ge> max_retries_before_help cfg
         then base_help @ [CHR 0x0A, CHR 0x0A] @ additional_help texts question_type
         else base_help)"

definition get_specific_guidance :: "HelpTexts \<Rightarrow> QuestionType \<Rightarrow> int \<Rightarrow> string" where
  "get_specific_guidance texts question_type retry_count' =
     (if retry_count' = 2 then guidance_second_failure texts
      else if retry_count' = 3 then guidance_third_failure texts
      else if retry_count' \<ge> 4 then guidance_later_failures texts
      else [])"

text \<open>
  \<^verbatim>\<open>_enhance_validation_result\<close>; a string is true in a condition when it is not
  empty, and \<^verbatim>\<open>None\<close> is false.
\<close>

definition truthy :: "string option \<Rightarrow> bool" where
  "truthy s = (case s of None \<Rightarrow> False | Some t \<Rightarrow> t \<noteq> [])"

definition enhance_validation_result ::
  "ValidationConfig \<Rightarrow> HelpTexts \<Rightarrow> EnhancedValidationResult \<Rightarrow> QuestionType \<Rightarrow> int
     \<Rightarrow> EnhancedValidationResult" where
  "enhance_validation_result cfg texts result question_type retry_count' =
     (let result1 = (if enable_format_suggestions cfg
                     then result\<lparr>examples := Some (format_examples texts question_type)\<rparr>
                     else result);
          result2 = (if retry_count' \<ge> max_retries_before_help cfg
                     then result1\<lparr>help_message :=
                            Some (get_help_message cfg texts question_type retry_count')\<rparr>
                     else if \<not> truthy (help_message result1)
                     then result1\<lparr>help_message := Some (base_help_message texts question_type)\<rparr>
                     else result1);
          specific_guidance = get_specific_guidance texts question_type retry_count'
      in if specific_guidance \<noteq> [] then
           (if truthy (help_message result2)
            then result2\<lparr>help_message :=
                   Some (the (help_message result2) @ [CHR 0x0A, CHR 0x0A] @ specific_guidance)\<rparr>
            else result2\<lparr>help_message := Some specific_guidance\<rparr>)
         else result2)"

text \<open>
  \<^verbatim>\<open>validate_question_response\<close>: the result and the layer after the call, whose
  security manager is the one that \<^verbatim>\<open>validate_input\<close> leaves.
\<close>

definition validate_question_response ::
  "(string \<Rightarrow> float_value option) \<Rightarrow> HelpTexts \<Rightarrow> string \<Rightarrow> QuestionType \<Rightarrow> int \<Rightarrow> int
     \<Rightarrow> ValidationLayer \<Rightarrow> EnhancedValidationResult \<times> ValidationLayer" where
  "validate_question_response py_float texts user_input question_type user_id now vl =
     (let retry_count0 = get_retry_count vl user_id question_type;
          input_type = question_type_mapping question_type
      in case validate_input py_float user_input input_type user_id now (security_manager vl) of
           (basic_result, sm) \<Rightarrow>
             (let vl1 = vl\<lparr>security_manager := sm\<rparr>
              in if \<not> is_valid basic_result then
                   (let vl2 = increment_retry_count user_id question_type vl1;
                        new_retry_count = retry_count0 + 1;
                        enhanced_result0 =
                          \<lparr>is_valid = is_valid basic_result,
                           error_message = error_message basic_result,
                           help_message = help_message basic_result,
                           suggested_format = suggested_format basic_result,
                           retry_count = new_retry_count, progressive_help = None,
                           examples = None, is_progressive_help_triggered = False\<rparr>;
                        enhanced_result1 =
                          enhance_validation_result (config vl) texts enhanced_result0
                            question_type new_retry_count
                    in if enable_progressive_assistance (config vl)
                          \<and> new_retry_count \<ge> max_retries_before_progressive_help (config vl)
                       then (enhanced_result1\<lparr>progressive_help :=
                                 Some (progressive_help_message texts question_type),
                               is_progressive_help_triggered := True\<rparr>, vl2)
                       else (enhanced_result1, vl2))
                 else
                   (\<lparr>is_valid = is_valid basic_result,
                     error_message = error_message basic_result,
                     help_message = help_message basic_result,
                     suggested_format = suggested_format basic_result,
                     retry_count = 0, progressive_help = None,
                     examples = None, is_progressive_help_triggered = False\<rparr>,
                    reset_retry_count user_id question_type vl1)))"

text \<open>
  Consecutive submissions of one user for one question type: each entry is the text
  submitted and the clock reading of the call. The results are listed in order.
\<close>

fun validate_question_responses ::
  "(string \<Rightarrow> float_value option) \<Rightarrow> HelpTexts \<Rightarrow> (string \<times> int) list \<Rightarrow> QuestionType \<Rightarrow> int
     \<Rightarrow> ValidationLayer \<Rightarrow> EnhancedValidationResult list \<times> ValidationLayer" where
  "validate_question_responses py_float texts [] question_type user_id vl = ([], vl)"
| "validate_question_responses py_float texts (submission # submissions) question_type user_id vl =
     (case validate_question_response py_float texts (fst submission) question_type user_id
             (snd submission) vl of
        (result, vl1) \<Rightarrow>
          (case validate_question_responses py_float texts submissions question_type user_id vl1 of
             (results, vl2) \<Rightarrow> (result # results, vl2)))"

text \<open>
  Whether \<^verbatim>\<open>validate_input\<close> accepts a text for an input type. The answer does not
  depend on the user, the clock or the state of the manager, which are fixed here.
\<close>

definition input_accepted :: "(string \<Rightarrow> float_value option) \<Rightarrow> string \<Rightarrow> InputType \<Rightarrow> bool" where
  "input_accepted py_float text input_type =
     is_valid (fst (validate_input py_float text input_type 0 0 (new_security_manager 10)))"

text \<open>Message tables with plain texts, for the evaluation of examples.\<close>

definition plain_texts :: HelpTexts where
  "plain_texts =
     \<lparr>format_examples = (\<lambda>q. [''1'', ''2'', ''3'', ''4'', ''5'']),
      base_help_message = (\<lambda>q. ''base help''),
      additional_help = (\<lambda>q. ''additional help''),
      progressive_help_message = (\<lambda>q. ''progressive help''),
      guidance_second_failure = ''second failure'',
      guidance_third_failure = ''third failure'',
      guidance_later_failures = ''later failures''\<rparr>"

section \<open>Error handler\<close>

text \<open>
  A Python \<^verbatim>\<open>float\<close> is a \<open>real\<close>. Where an operation on floats raises when its
  result leaves the range of a double (the power \<^verbatim>\<open>**\<close>), the model raises too; the
  rounding of results that stay in range is not modelled.

  An exception is the class that decides its way through the \<^verbatim>\<open>isinstance\<close> chain of
  \<^verbatim>\<open>_classify_error\<close> (the first class of the chain it is an instance of), together
  with \<^verbatim>\<open>str(error)\<close>. \<open>BaseExceptionOnly\<close> stands for the exceptions that are not
  instances of \<^verbatim>\<open>Exception\<close> (cancellation, keyboard interrupt), \<open>OtherException\<close>
  for the instances of \<^verbatim>\<open>Exception\<close> that the chain does not name.
\<close>

datatype exception_class =
  TimedOut | AsyncioTimeoutError | BadRequest | Forbidden | ChatMigrated
  | NetworkError | ConnectionError | ValueError | PermissionError
  | ZeroDivisionError | OverflowError | OtherException | BaseExceptionOnly

datatype py_exception = Exc exception_class string

fun exc_class :: "py_exception \<Rightarrow> exception_class" where
  "exc_class (Exc c m) = c"

fun exc_str :: "py_exception \<Rightarrow> string" where
  "exc_str (Exc c m) = m"

definition is_Exception :: "py_exception \<Rightarrow> bool" where
  "is_Exception e = (exc_class e \<noteq> BaseExceptionOnly)"

datatype ErrorType =
  NETWORK_ERROR | TIMEOUT_ERROR | RATE_LIMIT_ERROR | VALIDATION_ERROR
  | SYSTEM_ERROR | SECURITY_ERROR | USER_ERROR | TELEGRAM_API_ERROR

datatype RecoveryAction = RETRY | SKIP | ABORT | FALLBACK | USER_NOTIFICATION

text \<open>\<^verbatim>\<open>ErrorContext\<close>, without \<^verbatim>\<open>additional_data\<close>, which only reaches the log.\<close>

record ErrorContext =
  ec_user_id :: "int option"
  ec_chat_id :: "int option"
  ec_message_id :: "int option"
  ec_function_name :: "string option"
  ec_attempt_number :: int

record RetryConfig =
  max_retries :: int
  base_delay :: real
  max_delay :: real
  exponential_base :: real
  jitter :: bool

definition default_RetryConfig :: RetryConfig where
  "default_RetryConfig =
     \<lparr>max_retries = 3, base_delay = 1, max_delay = 60, exponential_base = 2, jitter = True\<rparr>"

text \<open>
  \<^verbatim>\<open>ErrorHandler\<close>: the retry configuration and the table \<^verbatim>\<open>user_messages\<close>, whose
  entries are the pairs of a message and a help text.
\<close>

record ErrorHandler =
  retry_config :: RetryConfig
  user_messages :: "ErrorType \<rightharpoonup> string \<times> string"

definition classify_error :: "py_exception \<Rightarrow> ErrorType" where
  "classify_error error =
     (if exc_class error \<in> {TimedOut, AsyncioTimeoutError} then TIMEOUT_ERROR
      else if exc_class error = BadRequest then
        (if py_in ''rate limit'' (py_lower (exc_str error)) then RATE_LIMIT_ERROR
         else TELEGRAM_API_ERROR)
      else if exc_class error \<in> {Forbidden, ChatMigrated} then TELEGRAM_API_ERROR
      else if exc_class error \<in> {NetworkError, ConnectionError} then NETWORK_ERROR
      else if exc_class error = ValueError then VALIDATION_ERROR
      else if exc_class error = PermissionError then SECURITY_ERROR
      else SYSTEM_ERROR)"

definition determine_recovery_action ::
  "ErrorHandler \<Rightarrow> ErrorType \<Rightarrow> ErrorContext \<Rightarrow> RecoveryAction" where
  "determine_recovery_action eh error_type context =
     (if ec_attempt_number context \<ge> max_retries (retry_config eh) then
        (if error_type \<in> {NETWORK_ERROR, TIMEOUT_ERROR, TELEGRAM_API_ERROR}
         then FALLBACK else ABORT)
      else if error_type \<in> {NETWORK_ERROR, TIMEOUT_ERROR, TELEGRAM_API_ERROR} then RETRY
      else if error_type = RATE_LIMIT_ERROR then RETRY
      else if error_type \<in> {VALIDATION_ERROR, USER_ERROR} then USER_NOTIFICATION
      else if error_type = SECURITY_ERROR then USER_NOTIFICATION
      else ABORT)"

definition get_user_message :: "ErrorHandler \<Rightarrow> ErrorType \<Rightarrow> ErrorContext \<Rightarrow> string option" where
  "get_user_message eh error_type context =
     (case user_messages eh error_type of
        None \<Rightarrow> None
      | Some (message, help) \<Rightarrow>
          if ec_attempt_number context > 1 \<and> error_type \<in> {NETWORK_ERROR, TIMEOUT_ERROR}
          then Some (message @ '' (Intento '' @ str_int (ec_attempt_number context) @ ''/'' @
                       str_int (max_retries (retry_config eh)) @ '')'')
          else Some message)"

definition handle_error ::
  "ErrorHandler \<Rightarrow> py_exception \<Rightarrow> ErrorContext \<Rightarrow> RecoveryAction \<times> string option" where
  "handle_error eh error context =
     (let error_type = classify_error error
      in (determine_recovery_action eh error_type context,
          get_user_message eh error_type context))"

text \<open>
  \<^verbatim>\<open>x ** n\<close> for a float \<open>x\<close> and an integer \<open>n\<close>. A zero base with a negative
  exponent raises \<^verbatim>\<open>ZeroDivisionError\<close>. A result beyond the range of a double raises
  \<^verbatim>\<open>OverflowError\<close>: the largest double is \<open>2 ^ 1024 - 2 ^ 971\<close>, and a magnitude of
  \<open>2 ^ 1024 - 2 ^ 970\<close> or more rounds past it (so \<^verbatim>\<open>2.0 ** 1023\<close> is a float and
  \<^verbatim>\<open>2.0 ** 1024\<close> raises).
\<close>

definition double_overflows :: "real \<Rightarrow> bool" where
  "double_overflows y = (2 ^ 1024 - 2 ^ 970 \<le> \<bar>y\<bar>)"

definition overflow_error :: py_exception where
  "overflow_error =
     Exc OverflowError (''(34, '' @ [CHR 0x27] @ ''Numerical result out of range'' @
                         [CHR 0x27] @ '')'')"

definition float_pow :: "real \<Rightarrow> int \<Rightarrow> py_exception + real" where
  "float_pow x n =
     (if 0 \<le> n then
        (if double_overflows (x ^ nat n) then Inl overflow_error else Inr (x ^ nat n))
      else if x = 0 then Inl (Exc ZeroDivisionError
                               ''0.0 cannot be raised to a negative power'')
      else if double_overflows (1 / x ^ nat (- n)) then Inl overflow_error
      else Inr (1 / x ^ nat (- n)))"

text \<open>
  \<^verbatim>\<open>random.uniform(a, b)\<close> is \<^verbatim>\<open>a + (b - a) * self.random()\<close>; the argument \<open>r\<close> is the
  number that \<^verbatim>\<open>random()\<close> returns, at least 0 and less than 1.
\<close>

definition random_uniform :: "real \<Rightarrow> real \<Rightarrow> real \<Rightarrow> real" where
  "random_uniform a b r = a + (b - a) * r"

text \<open>
  \<^verbatim>\<open>calculate_retry_delay\<close>. The power is computed before the delay is capped, so
  its \<^verbatim>\<open>OverflowError\<close> leaves the function. The argument \<open>r\<close> is the number that
  \<^verbatim>\<open>random()\<close> returns inside \<^verbatim>\<open>random.uniform(0.1, 0.3)\<close>; it is read only when jitter
  is enabled.
\<close>

definition calculate_retry_delay ::
  "ErrorHandler \<Rightarrow> real \<Rightarrow> int \<Rightarrow> ErrorType \<Rightarrow> py_exception + real" where
  "calculate_retry_delay eh r attempt_number error_type =
     (case float_pow (exponential_base (retry_config eh)) (attempt_number - 1) of
        Inl e \<Rightarrow> Inl e
      | Inr p \<Rightarrow>
          (let delay0 = base_delay (retry_config eh) * p;
               delay1 = min delay0 (max_delay (retry_config eh));
               delay2 = (if error_type = RATE_LIMIT_ERROR then max delay1 30 else delay1);
               delay3 = (if jitter (retry_config eh)
                         then delay2 + random_uniform (1 / 10) (3 / 10) r * delay2
                         else delay2)
           in Inr delay3))"

text \<open>
  \<^verbatim>\<open>with_retry\<close>. The wrapped operation may behave differently at each invocation:
  \<open>func k\<close> is the outcome of the invocation made at attempt \<open>k\<close>, and \<open>rnd k\<close> the
  number that \<^verbatim>\<open>random()\<close> returns for the jitter at attempt \<open>k\<close>. The delay is computed
  inside the \<^verbatim>\<open>except\<close> block: an exception of \<^verbatim>\<open>calculate_retry_delay\<close> leaves the
  wrapper in place of the one that the operation raised. The wrapper yields the effects it
  performs, in order, and how it ends: with the value of the operation, with
  \<^verbatim>\<open>None\<close> (the loop body never ran), or with a raised exception.
\<close>

datatype 'a outcome = Returns 'a | Raises py_exception

text \<open>The \<^verbatim>\<open>ErrorContext\<close> that the wrapper builds for a failed attempt.\<close>

definition retry_context :: "string \<Rightarrow> int \<Rightarrow> ErrorContext" where
  "retry_context func_name attempt =
     \<lparr>ec_user_id = None, ec_chat_id = None, ec_message_id = None,
      ec_function_name = Some func_name, ec_attempt_number = attempt\<rparr>"

datatype effect = Invoke int | Sleep real

datatype 'a wrapper_result = Returned 'a | ReturnedNone | Raised py_exception

function wrapper_loop ::
  "ErrorHandler \<Rightarrow> string \<Rightarrow> (int \<Rightarrow> 'a outcome) \<Rightarrow> (int \<Rightarrow> real) \<Rightarrow> int \<Rightarrow> int
     \<Rightarrow> py_exception option \<Rightarrow> effect list \<times> 'a wrapper_result" where
  "wrapper_loop eh func_name func rnd retries attempt last_error =
     (if attempt > retries then
        ([], case last_error of Some e \<Rightarrow> Raised e | None \<Rightarrow> ReturnedNone)
      else case func attempt of
        Returns v \<Rightarrow> ([Invoke attempt], Returned v)
      | Raises e \<Rightarrow>
          if \<not> is_Exception e then ([Invoke attempt], Raised e)
          else
            (let context = retry_context func_name attempt;
                 recovery_action = fst (handle_error eh e context)
             in if attempt = retries \<or> recovery_action \<noteq> RETRY then
                  ([Invoke attempt], Raised e)
                else
                  (case calculate_retry_delay eh (rnd attempt) attempt (classify_error e) of
                     Inl err \<Rightarrow> ([Invoke attempt], Raised err)
                   | Inr delay \<Rightarrow>
                       (case wrapper_loop eh func_name func rnd retries (attempt + 1) (Some e) of
                          (effects, r) \<Rightarrow> (Invoke attempt # Sleep delay # effects, r)))))"
  by pat_completeness auto
termination
  by (relation "measure (\<lambda>(eh, func_name, func, rnd, retries, attempt, last_error).
                  nat (retries + 1 - attempt))") auto

text \<open>
  The wrapper itself: \<^verbatim>\<open>retries = max_retries or self.retry_config.max_retries\<close>, then
  the loop over \<^verbatim>\<open>range(1, retries + 1)\<close>.
\<close>

definition with_retry ::
  "ErrorHandler \<Rightarrow> int option \<Rightarrow> string \<Rightarrow> (int \<Rightarrow> 'a outcome) \<Rightarrow> (int \<Rightarrow> real)
     \<Rightarrow> effect list \<times> 'a wrapper_result" where
  "with_retry eh max_retries_arg func_name func rnd =
     (let retries = (case max_retries_arg of
                       None \<Rightarrow> max_retries (retry_config eh)
                     | Some n \<Rightarrow> if n \<noteq> 0 then n else max_retries (retry_config eh))
      in wrapper_loop eh func_name func rnd retries 1 None)"

section \<open>Conversation handler\<close>

datatype ConversationState = START | ADAM | AMS | LIFESTYLE | RESULTS | COMPLETED

record UserProgress =
  up_user_id :: int
  current_state :: ConversationState
  adam_answers :: "bool list"
  ams_score :: int
  ams_question_index :: int
  lifestyle_answers :: "string \<rightharpoonup> py_value"
  lifestyle_question_index :: int
  start_time :: int
  last_activity :: int

text \<open>
  The dictionary \<^verbatim>\<open>context_data\<close> handed to \<^verbatim>\<open>save_progress\<close>: one optional entry
  for each of the five keys that \<^verbatim>\<open>save_progress\<close> looks up (\<open>None\<close>: the key is not
  in the dictionary). Other keys are never read.
\<close>

record ContextData =
  cd_adam_answers :: "bool list option"
  cd_ams_score :: "int option"
  cd_ams_question_index :: "int option"
  cd_lifestyle_answers :: "(string \<rightharpoonup> py_value) option"
  cd_lifestyle_question_index :: "int option"

text \<open>
  \<^verbatim>\<open>EnhancedConversationHandler\<close>: the dictionary \<^verbatim>\<open>_user_data\<close> and the configuration
  attributes. The snapshot file is written by \<^verbatim>\<open>_save_data\<close> and read only by the
  constructor; \<^verbatim>\<open>save_progress\<close> and \<^verbatim>\<open>load_progress\<close> read \<^verbatim>\<open>_user_data\<close>, so the file
  is not part of the state here.
\<close>

record EnhancedConversationHandler =
  user_data :: "int \<rightharpoonup> UserProgress"
  ttl_hours :: int
  timeout_minutes :: int
  cleanup_interval_minutes :: int

text \<open>The handler after \<^verbatim>\<open>__init__\<close> when no snapshot file exists.\<close>

definition new_conversation_handler :: EnhancedConversationHandler where
  "new_conversation_handler =
     \<lparr>user_data = Map.empty, ttl_hours = 24, timeout_minutes = 30,
      cleanup_interval_minutes = 60\<rparr>"

text \<open>\<^verbatim>\<open>_is_data_valid\<close>, with the clock reading \<open>now\<close>.\<close>

definition is_data_valid :: "int \<Rightarrow> EnhancedConversationHandler \<Rightarrow> UserProgress \<Rightarrow> bool" where
  "is_data_valid now h progress =
     (let ttl_threshold = now - hours (ttl_hours h)
      in last_activity progress > ttl_threshold)"

text \<open>
  \<^verbatim>\<open>_cleanup_expired_data\<close>: every session that is not valid is deleted. The pass is
  taken at one clock reading.
\<close>

definition cleanup_expired_data ::
  "int \<Rightarrow> EnhancedConversationHandler \<Rightarrow> EnhancedConversationHandler" where
  "cleanup_expired_data now h =
     h\<lparr>user_data := (\<lambda>user_id. case user_data h user_id of
                                   None \<Rightarrow> None
                                 | Some progress \<Rightarrow>
                                     if is_data_valid now h progress then Some progress
                                     else None)\<rparr>"

text \<open>
  \<^verbatim>\<open>_save_data\<close>: the cleanup pass, then the write of the snapshot file. A failed
  write is caught and logged, so the effect on the handler is that of the cleanup.
\<close>

definition save_data :: "int \<Rightarrow> EnhancedConversationHandler \<Rightarrow> EnhancedConversationHandler" where
  "save_data now h = cleanup_expired_data now h"

text \<open>
  \<^verbatim>\<open>save_progress\<close>. \<open>now\<close> is the clock reading of the first line, \<open>now_save\<close> the
  later one of the cleanup pass inside \<^verbatim>\<open>_save_data\<close>.
\<close>

definition save_progress ::
  "int \<Rightarrow> int \<Rightarrow> int \<Rightarrow> ConversationState \<Rightarrow> ContextData \<Rightarrow> EnhancedConversationHandler
     \<Rightarrow> EnhancedConversationHandler" where
  "save_progress now now_save user_id state context_data h =
     (let progress0 = (case user_data h user_id of
                         Some progress \<Rightarrow> progress\<lparr>current_state := state, last_activity := now\<rparr>
                       | None \<Rightarrow>
                           \<lparr>up_user_id = user_id, current_state = state, adam_answers = [],
                            ams_score = 0, ams_question_index = 0,
                            lifestyle_answers = Map.empty, lifestyle_question_index = 0,
                            start_time = now, last_activity = now\<rparr>);
          progress1 = (case cd_adam_answers context_data of
                         Some v \<Rightarrow> progress0\<lparr>adam_answers := v\<rparr> | None \<Rightarrow> progress0);
          progress2 = (case cd_ams_score context_data of
                         Some v \<Rightarrow> progress1\<lparr>ams_score := v\<rparr> | None \<Rightarrow> progress1);
          progress3 = (case cd_ams_question_index context_data of
                         Some v \<Rightarrow> progress2\<lparr>ams_question_index := v\<rparr> | None \<Rightarrow> progress2);
          progress4 = (case cd_lifestyle_answers context_data of
                         Some v \<Rightarrow> progress3\<lparr>lifestyle_answers := v\<rparr> | None \<Rightarrow> progress3);
          progress5 = (case cd_lifestyle_question_index context_data of
                         Some v \<Rightarrow> progress4\<lparr>lifestyle_question_index := v\<rparr>
                       | None \<Rightarrow> progress4)
      in save_data now_save (h\<lparr>user_data := (user_data h)(user_id \<mapsto> progress5)\<rparr>))"

text \<open>
  \<^verbatim>\<open>load_progress\<close>. \<open>now\<close> is the clock reading of the validity check, \<open>now_save\<close>
  the later one of \<^verbatim>\<open>_save_data\<close>, taken only when the session has expired.
\<close>

definition load_progress ::
  "int \<Rightarrow> int \<Rightarrow> int \<Rightarrow> EnhancedConversationHandler
     \<Rightarrow> UserProgress option \<times> EnhancedConversationHandler" where
  "load_progress now now_save user_id h =
     (case user_data h user_id of
        None \<Rightarrow> (None, h)
      | Some progress \<Rightarrow>
          if \<not> is_data_valid now h progress
          then (None, save_data now_save (h\<lparr>user_data := (user_data h)(user_id := None)\<rparr>))
          else (Some progress, h))"

text \<open>
  The delay before jitter as the specification words it: the exponential backoff
  capped at the maximum delay, and never below 30 seconds for the rate-limit kind.
\<close>

definition spec_pre_jitter_delay :: "RetryConfig \<Rightarrow> int \<Rightarrow> ErrorType \<Rightarrow> real" where
  "spec_pre_jitter_delay cfg attempt kind =
     (let capped = min (base_delay cfg * exponential_base cfg ^ nat (attempt - 1)) (max_delay cfg)
      in if kind = RATE_LIMIT_ERROR then max capped 30 else capped)"

section \<open>Bound on the event list\<close>

lemma drop_keep_compose:
  "drop (length (drop (length ys - n) ys) + length es - n) (drop (length ys - n) ys @ es)
     = drop (length ys + length es - n) (ys @ es)"
proof (cases "length ys \<le> n")
  case True
  then show ?thesis by simp
next
  case False
  have "drop (length ys + length es - n) (ys @ es) =
          drop (length es + (length ys - n)) (ys @ es)"
    using False by (simp add: add.commute)
  also have "\<dots> = drop (length es) (drop (length ys - n) (ys @ es))"
    by (simp only: drop_drop)
  also have "\<dots> = drop (length es) (drop (length ys - n) ys @ es)"
    by simp
  finally show ?thesis using False by simp
qed

lemma log_security_event_events:
  "security_events (log_security_event e sm) =
     drop (length (security_events sm @ [e]) - 1000) (security_events sm @ [e])"
  by (simp add: log_security_event_def Let_def)

lemma log_security_events_events:
  "es \<noteq> [] \<Longrightarrow> security_events (log_security_events es sm) =
     drop (length (security_events sm) + length es - 1000) (security_events sm @ es)"
proof (induction es arbitrary: sm)
  case Nil
  then show ?case by simp
next
  case (Cons e es)
  show ?case
  proof (cases "es = []")
    case True
    then show ?thesis by (simp add: log_security_event_events)
  next
    case False
    let ?ys = "security_events sm @ [e]"
    have "security_events (log_security_events (e # es) sm) =
            drop (length (drop (length ?ys - 1000) ?ys) + length es - 1000)
                 (drop (length ?ys - 1000) ?ys @ es)"
      using Cons.IH [OF False, of "log_security_event e sm"]
      by (simp only: log_security_events.simps log_security_event_events)
    also have "\<dots> = drop (length ?ys + length es - 1000) (?ys @ es)"
      by (rule drop_keep_compose)
    finally show ?thesis by simp
  qed
qed

text \<open>
  C10. After a call of \<^verbatim>\<open>log_security_event\<close> the event list has at most 1000
  entries, it is the longest such tail of the old list extended by the new event
  (so the new event is its last entry and the oldest entries are the ones dropped),
  and a manager that starts empty holds, after any sequence of logged events, exactly
  the last 1000 of them (all of them when there are fewer).
\<close>

theorem log_security_event_bounded:
  "length (security_events (log_security_event e sm)) \<le> 1000
   \<and> length (security_events (log_security_event e sm)) =
       min 1000 (length (security_events sm) + 1)
   \<and> suffix (security_events (log_security_event e sm)) (security_events sm @ [e])
   \<and> last (security_events (log_security_event e sm)) = e
   \<and> security_events (log_security_events es (new_security_manager n)) =
       drop (length es - 1000) es
   \<and> length (security_events (log_security_events es (new_security_manager n))) \<le> 1000"
proof -
  let ?xs = "security_events sm @ [e]"
  have 1: "length (security_events (log_security_event e sm)) =
             min 1000 (length (security_events sm) + 1)"
    by (simp add: log_security_event_events)
  have 2: "suffix (security_events (log_security_event e sm)) ?xs"
    unfolding log_security_event_events by (rule suffix_drop)
  have 3: "last (security_events (log_security_event e sm)) = e"
    by (simp add: log_security_event_events)
  have 4: "security_events (log_security_events es (new_security_manager n)) =
             drop (length es - 1000) es"
  proof (cases "es = []")
    case True
    then show ?thesis by (simp add: new_security_manager_def)
  next
    case False
    from log_security_events_events [OF False, of "new_security_manager n"]
    show ?thesis by (simp add: new_security_manager_def)
  qed
  have 5: "length (security_events (log_security_events es (new_security_manager n))) \<le> 1000"
    unfolding 4 by simp
  from 1 2 3 4 5 show ?thesis by simp
qed

section \<open>Rate limiter: twenty requests in one window\<close>

text \<open>
  C1. Limit 10, one identity, twenty admission checks one second apart (all inside
  one 60-second window). The eleventh call is rejected and records a block of one
  minute. Calls twelve to twenty are rejected by the check of the active block, which
  returns before the request is counted: after the twentieth call the count is still
  11, the block still ends one minute after the eleventh call, and the only event
  logged is the one of the eleventh call, with \<^verbatim>\<open>block_minutes\<close> 1.
\<close>

theorem check_rate_limit_twentieth_call:
  "fst (check_rate_limit_calls (map seconds [0, 1, 2, 3, 4, 5, 6, 7, 8, 9, 10]) 7
          (new_security_manager 10)) =
     [True, True, True, True, True, True, True, True, True, True, False]
   \<and> rate_limit_data (snd (check_rate_limit_calls
          (map seconds [0, 1, 2, 3, 4, 5, 6, 7, 8, 9, 10]) 7 (new_security_manager 10))) 7 =
       Some \<lparr>rl_user_id = 7, requests_count = 11, window_start = 0, is_blocked = True,
             block_until = Some (seconds 10 + minutes 1)\<rparr>
   \<and> fst (check_rate_limit_calls
          (map seconds [0, 1, 2, 3, 4, 5, 6, 7, 8, 9, 10, 11, 12, 13, 14, 15, 16, 17, 18, 19]) 7
          (new_security_manager 10)) =
       [True, True, True, True, True, True, True, True, True, True,
        False, False, False, False, False, False, False, False, False, False]
   \<and> rate_limit_data (snd (check_rate_limit_calls
          (map seconds [0, 1, 2, 3, 4, 5, 6, 7, 8, 9, 10, 11, 12, 13, 14, 15, 16, 17, 18, 19]) 7
          (new_security_manager 10))) 7 =
       Some \<lparr>rl_user_id = 7, requests_count = 11, window_start = 0, is_blocked = True,
             block_until = Some (seconds 10 + minutes 1)\<rparr>
   \<and> security_events (snd (check_rate_limit_calls
          (map seconds [0, 1, 2, 3, 4, 5, 6, 7, 8, 9, 10, 11, 12, 13, 14, 15, 16, 17, 18, 19]) 7
          (new_security_manager 10))) =
       [\<lparr>ev_user_id = 7, event_type = RATE_LIMIT_EXCEEDED,
         description = ''Rate limit exceeded: 11 requests in 1 minute'',
         timestamp = seconds 10, severity = MEDIUM,
         additional_data = Some [(''requests_count'', VInt 11), (''block_minutes'', VInt 1)]\<rparr>]"
  by (simp add: check_rate_limit_def new_security_manager_def seconds_def minutes_def
        log_security_event_def Let_def digit_char_def str_int_def)

section \<open>Recovery decision\<close>

text \<open>
  C7. The recovery decision for every error kind and attempt number: once the attempt
  number has reached the configured maximum, FALLBACK for the network, timeout and
  transport-API kinds and ABORT for every other kind; before that, RETRY for the
  network, timeout, transport-API and rate-limit kinds, USER_NOTIFICATION for the
  validation and security kinds (and for the user kind of the code), ABORT for the
  system kind.
\<close>

theorem determine_recovery_action_table:
  "determine_recovery_action eh kind context =
     (if max_retries (retry_config eh) \<le> ec_attempt_number context then
        (case kind of
           NETWORK_ERROR \<Rightarrow> FALLBACK | TIMEOUT_ERROR \<Rightarrow> FALLBACK
         | TELEGRAM_API_ERROR \<Rightarrow> FALLBACK | RATE_LIMIT_ERROR \<Rightarrow> ABORT
         | VALIDATION_ERROR \<Rightarrow> ABORT | SECURITY_ERROR \<Rightarrow> ABORT
         | SYSTEM_ERROR \<Rightarrow> ABORT | USER_ERROR \<Rightarrow> ABORT)
      else
        (case kind of
           NETWORK_ERROR \<Rightarrow> RETRY | TIMEOUT_ERROR \<Rightarrow> RETRY
         | TELEGRAM_API_ERROR \<Rightarrow> RETRY | RATE_LIMIT_ERROR \<Rightarrow> RETRY
         | VALIDATION_ERROR \<Rightarrow> USER_NOTIFICATION | SECURITY_ERROR \<Rightarrow> USER_NOTIFICATION
         | SYSTEM_ERROR \<Rightarrow> ABORT | USER_ERROR \<Rightarrow> USER_NOTIFICATION))"
  by (cases kind) (simp_all add: determine_recovery_action_def)

theorem determine_recovery_action_table_witness:
  "determine_recovery_action \<lparr>retry_config = default_RetryConfig, user_messages = Map.empty\<rparr>
      TIMEOUT_ERROR (retry_context ''send'' 3) = FALLBACK
   \<and> determine_recovery_action \<lparr>retry_config = default_RetryConfig, user_messages = Map.empty\<rparr>
      RATE_LIMIT_ERROR (retry_context ''send'' 3) = ABORT
   \<and> determine_recovery_action \<lparr>retry_config = default_RetryConfig, user_messages = Map.empty\<rparr>
      RATE_LIMIT_ERROR (retry_context ''send'' 2) = RETRY
   \<and> determine_recovery_action \<lparr>retry_config = default_RetryConfig, user_messages = Map.empty\<rparr>
      SECURITY_ERROR (retry_context ''send'' 1) = USER_NOTIFICATION"
  by (simp add: determine_recovery_action_table default_RetryConfig_def retry_context_def)

section \<open>Retry delay\<close>

lemma float_pow_in_range:
  "0 \<le> n \<Longrightarrow> \<not> double_overflows (x ^ nat n) \<Longrightarrow> float_pow x n = Inr (x ^ nat n)"
  by (simp add: float_pow_def)

lemma float_pow_overflow:
  "0 \<le> n \<Longrightarrow> double_overflows (x ^ nat n) \<Longrightarrow> float_pow x n = Inl overflow_error"
  by (simp add: float_pow_def)

lemma random_uniform_bounds:
  "0 \<le> r \<Longrightarrow> r < 1 \<Longrightarrow>
     1 / 10 \<le> random_uniform (1 / 10) (3 / 10) r \<and> random_uniform (1 / 10) (3 / 10) r < 3 / 10"
  by (simp add: random_uniform_def)

text \<open>
  The delay where the power stays in the range of a double: the backoff capped at
  the maximum delay, at least 30 seconds for the rate-limit kind, and with jitter
  that delay plus the drawn share of it, which lies between 10 and 30 percent.
\<close>

lemma calculate_retry_delay_in_range:
  assumes "1 \<le> attempt_number"
    and "\<not> double_overflows (exponential_base (retry_config eh) ^ nat (attempt_number - 1))"
  shows "calculate_retry_delay eh r attempt_number kind =
           Inr (if jitter (retry_config eh)
                then spec_pre_jitter_delay (retry_config eh) attempt_number kind +
                     random_uniform (1 / 10) (3 / 10) r *
                       spec_pre_jitter_delay (retry_config eh) attempt_number kind
                else spec_pre_jitter_delay (retry_config eh) attempt_number kind)"
proof -
  have "float_pow (exponential_base (retry_config eh)) (attempt_number - 1) =
          Inr (exponential_base (retry_config eh) ^ nat (attempt_number - 1))"
    using assms by (intro float_pow_in_range) simp_all
  then show ?thesis
    by (simp add: calculate_retry_delay_def spec_pre_jitter_delay_def Let_def)
qed

lemma calculate_retry_delay_overflow:
  assumes "1 \<le> attempt_number"
    and "double_overflows (exponential_base (retry_config eh) ^ nat (attempt_number - 1))"
  shows "calculate_retry_delay eh r attempt_number kind = Inl overflow_error"
proof -
  have "float_pow (exponential_base (retry_config eh)) (attempt_number - 1) = Inl overflow_error"
    using assms by (intro float_pow_overflow) simp_all
  then show ?thesis
    by (simp add: calculate_retry_delay_def)
qed

lemma two_power_1024_overflows: "double_overflows (2 ^ 1024)"
  by (simp add: double_overflows_def)

lemma two_power_1023_in_range: "\<not> double_overflows (2 ^ 1023)"
  by (simp add: double_overflows_def)

text \<open>
  C6. With the default configuration (base delay 1, exponential base 2, maximum delay
  60) the delay before jitter of attempt 1025 is, by the formula, the cap of 60
  seconds. \<^verbatim>\<open>calculate_retry_delay\<close> computes the power \<^verbatim>\<open>2.0 ** 1024\<close> before it
  applies the cap, so at attempt 1025 it raises \<^verbatim>\<open>OverflowError\<close> and returns no
  delay, for the rate-limit kind as for any other. Attempt 1024 still returns the
  capped delay with its jitter.
\<close>

theorem calculate_retry_delay_overflow_at_1025:
  "spec_pre_jitter_delay default_RetryConfig 1025 NETWORK_ERROR = 60
   \<and> calculate_retry_delay \<lparr>retry_config = default_RetryConfig, user_messages = Map.empty\<rparr>
        (1 / 2) 1025 NETWORK_ERROR = Inl overflow_error
   \<and> calculate_retry_delay \<lparr>retry_config = default_RetryConfig, user_messages = Map.empty\<rparr>
        (1 / 2) 1025 RATE_LIMIT_ERROR = Inl overflow_error
   \<and> calculate_retry_delay \<lparr>retry_config = default_RetryConfig, user_messages = Map.empty\<rparr>
        (1 / 2) 1024 NETWORK_ERROR = Inr 72"
proof -
  let ?eh = "\<lparr>retry_config = default_RetryConfig, user_messages = Map.empty\<rparr>"
  have spec: "spec_pre_jitter_delay default_RetryConfig 1025 NETWORK_ERROR = 60"
    by (simp add: spec_pre_jitter_delay_def default_RetryConfig_def)
  have over: "double_overflows (exponential_base (retry_config ?eh) ^ nat (1025 - 1))"
    using two_power_1024_overflows by (simp add: default_RetryConfig_def)
  have fine: "\<not> double_overflows (exponential_base (retry_config ?eh) ^ nat (1024 - 1))"
    using two_power_1023_in_range by (simp add: default_RetryConfig_def)
  have a: "calculate_retry_delay ?eh (1 / 2) 1025 NETWORK_ERROR = Inl overflow_error"
    using over by (intro calculate_retry_delay_overflow) simp_all
  have b: "calculate_retry_delay ?eh (1 / 2) 1025 RATE_LIMIT_ERROR = Inl overflow_error"
    using over by (intro calculate_retry_delay_overflow) simp_all
  have c: "calculate_retry_delay ?eh (1 / 2) 1024 NETWORK_ERROR = Inr 72"
    using calculate_retry_delay_in_range [of 1024 ?eh "1 / 2" NETWORK_ERROR] fine
    by (simp add: spec_pre_jitter_delay_def default_RetryConfig_def random_uniform_def)
  from spec a b c show ?thesis by simp
qed

section \<open>Retry wrapper\<close>

declare wrapper_loop.simps [simp del]

lemma wrapper_loop_final:
  assumes "attempt \<le> retries" and "func attempt = Raises e"
    and "attempt = retries \<or> fst (handle_error eh e (retry_context func_name attempt)) \<noteq> RETRY
           \<or> \<not> is_Exception e"
  shows "wrapper_loop eh func_name func rnd retries attempt last_error =
           ([Invoke attempt], Raised e)"
  using assms
  by (subst wrapper_loop.simps) (auto simp: Let_def)

lemma wrapper_loop_retry:
  assumes "attempt < retries" and "func attempt = Raises e" and "is_Exception e"
    and "fst (handle_error eh e (retry_context func_name attempt)) = RETRY"
    and "calculate_retry_delay eh (rnd attempt) attempt (classify_error e) = Inr d"
  shows "wrapper_loop eh func_name func rnd retries attempt last_error =
           (Invoke attempt # Sleep d #
              fst (wrapper_loop eh func_name func rnd retries (attempt + 1) (Some e)),
            snd (wrapper_loop eh func_name func rnd retries (attempt + 1) (Some e)))"
  using assms
  by (subst wrapper_loop.simps) (auto simp: Let_def split: prod.splits)

lemma wrapper_loop_delay_raises:
  assumes "attempt < retries" and "func attempt = Raises e" and "is_Exception e"
    and "fst (handle_error eh e (retry_context func_name attempt)) = RETRY"
    and "calculate_retry_delay eh (rnd attempt) attempt (classify_error e) = Inl err"
  shows "wrapper_loop eh func_name func rnd retries attempt last_error =
           ([Invoke attempt], Raised err)"
  using assms
  by (subst wrapper_loop.simps) (auto simp: Let_def)

lemma ten_power_200_in_range: "\<not> double_overflows (10 ^ 200)"
  by (simp add: double_overflows_def)

lemma ten_power_400_overflows: "double_overflows ((10 ^ 200) ^ 2)"
  by (simp add: double_overflows_def)

text \<open>
  C8. A handler with \<^verbatim>\<open>max_retries\<close> 5, exponential base \<^verbatim>\<open>1e200\<close> and no jitter wraps
  an operation that raises a network error at every invocation. The first two
  failures are retried after delays of 1 and 60 seconds. At the third failure the
  decided action is RETRY and the attempt is not the last one, but the delay
  \<^verbatim>\<open>1e200 ** 2\<close> is computed inside the \<^verbatim>\<open>except\<close> block and raises: the wrapper does not
  sleep, does not invoke the operation again, and ends by raising \<^verbatim>\<open>OverflowError\<close>
  in place of the network error that the operation raised.
\<close>

theorem with_retry_delay_overflow_replaces_error:
  "fst (handle_error
          \<lparr>retry_config = \<lparr>max_retries = 5, base_delay = 1, max_delay = 60,
                            exponential_base = 10 ^ 200, jitter = False\<rparr>,
           user_messages = Map.empty\<rparr>
          (Exc NetworkError ''down'') (retry_context ''send'' 3)) = RETRY
   \<and> with_retry
        \<lparr>retry_config = \<lparr>max_retries = 5, base_delay = 1, max_delay = 60,
                          exponential_base = 10 ^ 200, jitter = False\<rparr>,
         user_messages = Map.empty\<rparr>
        None ''send'' (\<lambda>k. Raises (Exc NetworkError ''down'') :: unit outcome) (\<lambda>k. 1 / 2) =
       ([Invoke 1, Sleep 1, Invoke 2, Sleep 60, Invoke 3], Raised overflow_error)
   \<and> overflow_error \<noteq> Exc NetworkError ''down''"
proof -
  let ?eh = "\<lparr>retry_config = \<lparr>max_retries = 5, base_delay = 1, max_delay = 60,
                                exponential_base = 10 ^ 200, jitter = False\<rparr>,
              user_messages = Map.empty\<rparr>"
  let ?e = "Exc NetworkError ''down''"
  let ?f = "\<lambda>k::int. Raises ?e :: unit outcome"
  let ?r = "\<lambda>k::int. 1 / 2 :: real"
  have act: "fst (handle_error ?eh ?e (retry_context ''send'' k)) = RETRY" if "k < 5" for k
    using that
    by (simp add: handle_error_def determine_recovery_action_def classify_error_def
          retry_context_def)
  have exc: "is_Exception ?e"
    by (simp add: is_Exception_def)
  have d1: "calculate_retry_delay ?eh (?r 1) 1 (classify_error ?e) = Inr 1"
    using calculate_retry_delay_in_range [of 1 ?eh "1 / 2" "classify_error ?e"]
    by (simp add: double_overflows_def spec_pre_jitter_delay_def classify_error_def)
  have d2: "calculate_retry_delay ?eh (?r 2) 2 (classify_error ?e) = Inr 60"
    using calculate_retry_delay_in_range [of 2 ?eh "1 / 2" "classify_error ?e"]
      ten_power_200_in_range
    by (simp add: spec_pre_jitter_delay_def classify_error_def)
  have d3: "calculate_retry_delay ?eh (?r 3) 3 (classify_error ?e) = Inl overflow_error"
    using calculate_retry_delay_overflow [of 3 ?eh "1 / 2" "classify_error ?e"]
      ten_power_400_overflows
    by simp
  have w3: "wrapper_loop ?eh ''send'' ?f ?r 5 3 (Some ?e) = ([Invoke 3], Raised overflow_error)"
    using act [of 3] exc d3 by (intro wrapper_loop_delay_raises) simp_all
  have w2: "wrapper_loop ?eh ''send'' ?f ?r 5 2 (Some ?e) =
              ([Invoke 2, Sleep 60, Invoke 3], Raised overflow_error)"
    using wrapper_loop_retry [of 2 5 ?f ?e ?eh "''send''" ?r 60 "Some ?e"] act [of 2] exc d2 w3
    by simp
  have w1: "wrapper_loop ?eh ''send'' ?f ?r 5 1 None =
              ([Invoke 1, Sleep 1, Invoke 2, Sleep 60, Invoke 3], Raised overflow_error)"
    using wrapper_loop_retry [of 1 5 ?f ?e ?eh "''send''" ?r 1 None] act [of 1] exc d1 w2
    by simp
  have diff: "overflow_error \<noteq> ?e"
    by (simp add: overflow_error_def)
  show ?thesis
    using w1 act [of 3] diff by (simp add: with_retry_def)
qed

section \<open>Session expiry\<close>

text \<open>
  C3, at the boundary. A stored session whose inactivity equals the 24-hour TTL
  exactly is not returned by \<^verbatim>\<open>load_progress\<close>, and it is deleted.
\<close>

theorem load_progress_at_ttl_boundary:
  "hours 24 - last_activity
      \<lparr>up_user_id = 1, current_state = ADAM, adam_answers = [True], ams_score = 0,
       ams_question_index = 0, lifestyle_answers = Map.empty, lifestyle_question_index = 0,
       start_time = 0, last_activity = 0\<rparr> = hours (ttl_hours new_conversation_handler)
   \<and> fst (load_progress (hours 24) (hours 24) 1
        (new_conversation_handler\<lparr>user_data := [1 \<mapsto>
           \<lparr>up_user_id = 1, current_state = ADAM, adam_answers = [True], ams_score = 0,
            ams_question_index = 0, lifestyle_answers = Map.empty,
            lifestyle_question_index = 0, start_time = 0, last_activity = 0\<rparr>]\<rparr>)) = None
   \<and> user_data (snd (load_progress (hours 24) (hours 24) 1
        (new_conversation_handler\<lparr>user_data := [1 \<mapsto>
           \<lparr>up_user_id = 1, current_state = ADAM, adam_answers = [True], ams_score = 0,
            ams_question_index = 0, lifestyle_answers = Map.empty,
            lifestyle_question_index = 0, start_time = 0, last_activity = 0\<rparr>]\<rparr>))) 1 = None"
  by (simp add: load_progress_def is_data_valid_def new_conversation_handler_def hours_def
        save_data_def cleanup_expired_data_def)

text \<open>
  C3, as the code has it. For a stored session, \<^verbatim>\<open>load_progress\<close> returns the session
  and leaves the handler as it is when the inactivity \<open>now - last_activity\<close> is less
  than the TTL; it returns nothing and deletes the session when the inactivity is
  the TTL or more. A session inactive for exactly the TTL has expired.
\<close>

theorem load_progress_expiry:
  assumes "user_data h user_id = Some progress"
  shows "(now - last_activity progress < hours (ttl_hours h) \<longrightarrow>
            load_progress now now_save user_id h = (Some progress, h))
       \<and> (hours (ttl_hours h) \<le> now - last_activity progress \<longrightarrow>
            fst (load_progress now now_save user_id h) = None
            \<and> user_data (snd (load_progress now now_save user_id h)) user_id = None)"
  using assms
  by (auto simp: load_progress_def is_data_valid_def save_data_def cleanup_expired_data_def
        Let_def)

theorem load_progress_expiry_witness:
  "load_progress (hours 24 - 1) (hours 24) 1
      (new_conversation_handler\<lparr>user_data := [1 \<mapsto>
         \<lparr>up_user_id = 1, current_state = ADAM, adam_answers = [True], ams_score = 0,
          ams_question_index = 0, lifestyle_answers = Map.empty,
          lifestyle_question_index = 0, start_time = 0, last_activity = 0\<rparr>]\<rparr>) =
     (Some \<lparr>up_user_id = 1, current_state = ADAM, adam_answers = [True], ams_score = 0,
            ams_question_index = 0, lifestyle_answers = Map.empty,
            lifestyle_question_index = 0, start_time = 0, last_activity = 0\<rparr>,
      new_conversation_handler\<lparr>user_data := [1 \<mapsto>
         \<lparr>up_user_id = 1, current_state = ADAM, adam_answers = [True], ams_score = 0,
          ams_question_index = 0, lifestyle_answers = Map.empty,
          lifestyle_question_index = 0, start_time = 0, last_activity = 0\<rparr>]\<rparr>)
   \<and> fst (load_progress (hours 25) (hours 25) 1
        (new_conversation_handler\<lparr>user_data := [1 \<mapsto>
           \<lparr>up_user_id = 1, current_state = ADAM, adam_answers = [True], ams_score = 0,
            ams_question_index = 0, lifestyle_answers = Map.empty,
            lifestyle_question_index = 0, start_time = 0, last_activity = 0\<rparr>]\<rparr>)) = None"
  using
    load_progress_expiry [of
      "new_conversation_handler\<lparr>user_data := [1 \<mapsto>
         \<lparr>up_user_id = 1, current_state = ADAM, adam_answers = [True], ams_score = 0,
          ams_question_index = 0, lifestyle_answers = Map.empty,
          lifestyle_question_index = 0, start_time = 0, last_activity = 0\<rparr>]\<rparr>" 1
      "\<lparr>up_user_id = 1, current_state = ADAM, adam_answers = [True], ams_score = 0,
          ams_question_index = 0, lifestyle_answers = Map.empty,
          lifestyle_question_index = 0, start_time = 0, last_activity = 0\<rparr>"
      "hours 24 - 1" "hours 24"]
    load_progress_expiry [of
      "new_conversation_handler\<lparr>user_data := [1 \<mapsto>
         \<lparr>up_user_id = 1, current_state = ADAM, adam_answers = [True], ams_score = 0,
          ams_question_index = 0, lifestyle_answers = Map.empty,
          lifestyle_question_index = 0, start_time = 0, last_activity = 0\<rparr>]\<rparr>" 1
      "\<lparr>up_user_id = 1, current_state = ADAM, adam_answers = [True], ams_score = 0,
          ams_question_index = 0, lifestyle_answers = Map.empty,
          lifestyle_question_index = 0, start_time = 0, last_activity = 0\<rparr>"
      "hours 25" "hours 25"]
  by (simp add: new_conversation_handler_def hours_def)

section \<open>Saving and loading a session\<close>

text \<open>
  C9. \<^verbatim>\<open>save_progress\<close> followed at once by \<^verbatim>\<open>load_progress\<close> for the same user (both
  later clock readings less than the TTL after the save) returns a session: its state
  is the saved state; its answers to the yes/no section, its score and cursor of the
  scaled section and its answers and cursor of the free-form section are those of the
  payload where the payload has the key, and otherwise those of the session stored
  before (the defaults when none was stored); its last activity is the time of the
  save.
\<close>

theorem save_progress_load_progress_round_trip:
  assumes "now_save - now < hours (ttl_hours h)"
    and "now_load - now < hours (ttl_hours h)"
  shows "\<exists>p. fst (load_progress now_load now_save' user_id
                   (save_progress now now_save user_id state context_data h)) = Some p
           \<and> current_state p = state
           \<and> adam_answers p =
               (case cd_adam_answers context_data of Some v \<Rightarrow> v
                | None \<Rightarrow> (case user_data h user_id of Some q \<Rightarrow> adam_answers q | None \<Rightarrow> []))
           \<and> ams_score p =
               (case cd_ams_score context_data of Some v \<Rightarrow> v
                | None \<Rightarrow> (case user_data h user_id of Some q \<Rightarrow> ams_score q | None \<Rightarrow> 0))
           \<and> ams_question_index p =
               (case cd_ams_question_index context_data of Some v \<Rightarrow> v
                | None \<Rightarrow> (case user_data h user_id of
                             Some q \<Rightarrow> ams_question_index q | None \<Rightarrow> 0))
           \<and> lifestyle_answers p =
               (case cd_lifestyle_answers context_data of Some v \<Rightarrow> v
                | None \<Rightarrow> (case user_data h user_id of
                             Some q \<Rightarrow> lifestyle_answers q | None \<Rightarrow> Map.empty))
           \<and> lifestyle_question_index p =
               (case cd_lifestyle_question_index context_data of Some v \<Rightarrow> v
                | None \<Rightarrow> (case user_data h user_id of
                             Some q \<Rightarrow> lifestyle_question_index q | None \<Rightarrow> 0))
           \<and> last_activity p = now
           \<and> start_time p =
               (case user_data h user_id of Some q \<Rightarrow> start_time q | None \<Rightarrow> now)
           \<and> up_user_id p =
               (case user_data h user_id of Some q \<Rightarrow> up_user_id q | None \<Rightarrow> user_id)"
  using assms
  by (simp add: load_progress_def save_progress_def save_data_def cleanup_expired_data_def
        is_data_valid_def Let_def split: option.splits)

theorem save_progress_load_progress_round_trip_witness:
  "fst (load_progress (seconds 2) (seconds 2) 42
          (save_progress 0 (seconds 1) 42 AMS
             \<lparr>cd_adam_answers = Some [True, False], cd_ams_score = Some 7,
              cd_ams_question_index = None, cd_lifestyle_answers = None,
              cd_lifestyle_question_index = None\<rparr>
             new_conversation_handler)) =
     Some \<lparr>up_user_id = 42, current_state = AMS, adam_answers = [True, False],
           ams_score = 7, ams_question_index = 0, lifestyle_answers = Map.empty,
           lifestyle_question_index = 0, start_time = 0, last_activity = 0\<rparr>"
proof -
  have a: "seconds 1 - 0 < hours (ttl_hours new_conversation_handler)"
    and b: "seconds 2 - 0 < hours (ttl_hours new_conversation_handler)"
    by (simp_all add: seconds_def hours_def new_conversation_handler_def)
  from save_progress_load_progress_round_trip [OF a b, of "seconds 2" 42 AMS
      "\<lparr>cd_adam_answers = Some [True, False], cd_ams_score = Some 7,
        cd_ams_question_index = None, cd_lifestyle_answers = None,
        cd_lifestyle_question_index = None\<rparr>"]
  show ?thesis
    by (auto simp: new_conversation_handler_def)
qed

section \<open>Validation of input: the malicious-pattern stage\<close>

lemma log_security_event_user_error_counts [simp]:
  "user_error_counts (log_security_event e sm) = user_error_counts sm"
  by (simp add: log_security_event_def Let_def)

lemma get_user_error_count_log [simp]:
  "get_user_error_count (log_security_event e sm) u k = get_user_error_count sm u k"
  by (simp add: get_user_error_count_def)

lemma security_events_log_cong:
  "security_events sm1 = security_events sm \<Longrightarrow>
   security_events (log_security_event e sm1) = security_events (log_security_event e sm)"
  by (simp add: log_security_event_def Let_def)

lemma track_validation_error_count:
  "get_user_error_count (track_validation_error user_id k now sm) user_id k =
     get_user_error_count sm user_id k + 1"
  by (simp add: track_validation_error_def get_user_error_count_def Let_def
        split: option.splits)

lemma track_validation_error_other:
  "(u, k') \<noteq> (user_id, k) \<Longrightarrow>
   get_user_error_count (track_validation_error user_id k now sm) u k' =
     get_user_error_count sm u k'"
  by (auto simp: track_validation_error_def get_user_error_count_def Let_def
        split: option.splits)

lemma str_int_5: "str_int 5 = ''5''"
  by (simp add: str_int_def digit_char_def)

lemma track_validation_error_events:
  "security_events (track_validation_error user_id k now sm) =
     (if get_user_error_count sm user_id k + 1 = 5
      then security_events (log_security_event (repeated_input_event user_id k now) sm)
      else security_events sm)"
  by (auto simp: track_validation_error_def get_user_error_count_def Let_def
        repeated_input_event_def str_int_5 intro!: security_events_log_cong
        split: option.splits)

lemma track_validation_error_rate_limit_data [simp]:
  "rate_limit_data (track_validation_error user_id k now sm) = rate_limit_data sm"
  by (simp add: track_validation_error_def Let_def log_security_event_def)

lemma validator_outcomes:
  "(validate_age inp u now sm = (valid_result, sm)) \<or>
   (\<not> is_valid (fst (validate_age inp u now sm)) \<and>
      snd (validate_age inp u now sm) = track_validation_error u ''age'' now sm)"
  "(validate_body_fat pf inp u now sm = (valid_result, sm)) \<or>
   (\<not> is_valid (fst (validate_body_fat pf inp u now sm)) \<and>
      snd (validate_body_fat pf inp u now sm) = track_validation_error u ''body_fat'' now sm)"
  "(validate_scale_1_5 inp u now sm = (valid_result, sm)) \<or>
   (\<not> is_valid (fst (validate_scale_1_5 inp u now sm)) \<and>
      snd (validate_scale_1_5 inp u now sm) = track_validation_error u ''scale_1_5'' now sm)"
  "(validate_yes_no inp u now sm = (valid_result, sm)) \<or>
   (\<not> is_valid (fst (validate_yes_no inp u now sm)) \<and>
      snd (validate_yes_no inp u now sm) = track_validation_error u ''yes_no'' now sm)"
  "(validate_exercise_frequency inp u now sm = (valid_result, sm)) \<or>
   (\<not> is_valid (fst (validate_exercise_frequency inp u now sm)) \<and>
      snd (validate_exercise_frequency inp u now sm) =
        track_validation_error u ''exercise_frequency'' now sm)"
  "(validate_free_text inp u now sm = (valid_result, sm)) \<or>
   (\<not> is_valid (fst (validate_free_text inp u now sm)) \<and>
      snd (validate_free_text inp u now sm) = track_validation_error u ''free_text'' now sm)"
  by (simp_all add: validate_age_def validate_body_fat_def validate_scale_1_5_def
        validate_yes_no_def validate_exercise_frequency_def validate_free_text_def
        valid_result_def Let_def split: option.splits)

lemma validate_input_clean:
  assumes "first_match malicious_patterns (py_lower text) = None"
  shows "(validate_input pf text it u now sm = (valid_result, sm)) \<or>
         (\<not> is_valid (fst (validate_input pf text it u now sm)) \<and>
            snd (validate_input pf text it u now sm) =
              track_validation_error u (error_type_of it) now sm)"
  using assms
    validator_outcomes [where inp = "sanitize_input text" and u = u and now = now and sm = sm]
  by (cases it) (simp_all add: validate_input_def detect_malicious_input_def Let_def)

lemma validate_input_malicious:
  assumes "first_match malicious_patterns (py_lower text) = Some pattern"
  shows "validate_input pf text it u now sm =
           (malicious_result,
            log_security_event (malicious_input_event text u now (fst pattern)) sm)"
  using assms by (simp add: validate_input_def detect_malicious_input_def Let_def)

lemma is_valid_valid_result [simp]: "is_valid valid_result"
  by (simp add: valid_result_def)

lemma is_valid_malicious_result [simp]: "\<not> is_valid malicious_result"
  by (simp add: malicious_result_def)

lemma validator_valid_independent:
  "is_valid (fst (validate_age inp u now sm)) = is_valid (fst (validate_age inp u' now' sm'))"
  "is_valid (fst (validate_body_fat pf inp u now sm)) =
     is_valid (fst (validate_body_fat pf inp u' now' sm'))"
  "is_valid (fst (validate_scale_1_5 inp u now sm)) =
     is_valid (fst (validate_scale_1_5 inp u' now' sm'))"
  "is_valid (fst (validate_yes_no inp u now sm)) =
     is_valid (fst (validate_yes_no inp u' now' sm'))"
  "is_valid (fst (validate_exercise_frequency inp u now sm)) =
     is_valid (fst (validate_exercise_frequency inp u' now' sm'))"
  "is_valid (fst (validate_free_text inp u now sm)) =
     is_valid (fst (validate_free_text inp u' now' sm'))"
  by (simp_all add: validate_age_def validate_body_fat_def validate_scale_1_5_def
        validate_yes_no_def validate_exercise_frequency_def validate_free_text_def
        valid_result_def Let_def split: option.splits)

lemma validate_input_accepted:
  "is_valid (fst (validate_input pf text it u now sm)) = input_accepted pf text it"
proof (cases "first_match malicious_patterns (py_lower text)")
  case None
  then show ?thesis
    unfolding input_accepted_def
    using validator_valid_independent [where inp = "sanitize_input text" and u = u
        and now = now and sm = sm and u' = 0 and now' = 0 and sm' = "new_security_manager 10"]
    by (cases it) (simp_all add: validate_input_def detect_malicious_input_def Let_def)
next
  case (Some p)
  then show ?thesis
    by (simp add: input_accepted_def validate_input_malicious)
qed


lemma match_here_append: "match_here p s \<Longrightarrow> match_here p (s @ t)"
proof (induction p s rule: match_here.induct)
  case (1 s)
  then show ?case by simp
next
  case (2 cls ps s)
  then show ?case by (cases s) (auto split: if_splits)
next
  case (3 cls ps s)
  show ?case
  proof (cases "match_here ps s")
    case True
    then have "match_here ps (s @ t)" by (rule "3.IH"(1))
    then show ?thesis by simp
  next
    case False
    with "3.prems" obtain c cs where s: "s = c # cs" and c: "class_matches cls c"
      and m: "match_here ((cls, ZeroOrMore) # ps) cs"
      by (cases s) (auto split: if_splits)
    have ih: "match_here ((cls, ZeroOrMore) # ps) (cs @ t)"
      using False s c m by (rule "3.IH"(2))
    have step: "match_here ((cls, ZeroOrMore) # ps) (c # (cs @ t)) =
                  (match_here ps (c # (cs @ t)) \<or>
                   (class_matches cls c \<and> match_here ((cls, ZeroOrMore) # ps) (cs @ t)))"
      by (subst match_here.simps(3)) auto
    show ?thesis
      unfolding s append_Cons step using c ih by blast
  qed
next
  case (4 cls ps s)
  from "4.prems" obtain c cs where s: "s = c # cs" and c: "class_matches cls c"
    and m: "match_here ((cls, ZeroOrMore) # ps) cs"
    by (cases s) (simp_all split: if_splits)
  have ih: "match_here ((cls, ZeroOrMore) # ps) (cs @ t)"
    using s c m by (rule "4.IH")
  have step: "match_here ((cls, OneOrMore) # ps) (c # (cs @ t)) =
                (class_matches cls c \<and> match_here ((cls, ZeroOrMore) # ps) (cs @ t))"
    by (subst match_here.simps(4)) auto
  show ?case
    unfolding s append_Cons step using c ih by blast
qed

lemma re_search_append: "re_search p s \<Longrightarrow> re_search p (s @ t)"
proof (induction s)
  case Nil
  then have "match_here p t"
    using match_here_append [of p "[]" t] by simp
  then show ?case by (cases t) simp_all
next
  case (Cons c cs)
  show ?case
  proof (cases "match_here p (c # cs)")
    case True
    then have "match_here p ((c # cs) @ t)" by (rule match_here_append)
    then show ?thesis by simp
  next
    case False
    with Cons show ?thesis by simp
  qed
qed

lemma re_search_prepend: "re_search p s \<Longrightarrow> re_search p (a @ s)"
  by (induction a) simp_all

lemma re_search_contains: "re_search p s \<Longrightarrow> re_search p (a @ s @ b)"
  by (simp add: re_search_append re_search_prepend)

lemma first_match_Some:
  "\<exists>p\<in>set ps. re_search (snd p) s \<Longrightarrow> \<exists>q. first_match ps s = Some q \<and> q \<in> set ps"
  by (induction ps) auto

lemma script_tag_found:
  "re_search (snd (hd malicious_patterns)) (py_lower ''<script>alert(1)</script>'')"
  by (simp add: malicious_patterns_def py_lower_def lower_char_def upper_case_letters_def
        lower_case_letters_def lits_def)

text \<open>
  C5. A text in which one of the malicious patterns is found is rejected by
  \<^verbatim>\<open>validate_input\<close> at the malicious-pattern stage, whatever the input type: the
  result is the generic invalid result, the same for every input type; the manager
  is the old one with one event logged, of severity HIGH and type MALICIOUS_INPUT,
  which keeps the first 100 characters of the text at most; the error counters, which
  only the validators of the input types touch, are unchanged.
\<close>

theorem validate_input_rejects_malicious:
  assumes "\<exists>p\<in>set malicious_patterns. re_search (snd p) (py_lower text)"
  shows "\<exists>pattern. first_match malicious_patterns (py_lower text) = Some pattern
           \<and> validate_input py_float text input_type user_id now sm =
               (malicious_result,
                log_security_event (malicious_input_event text user_id now (fst pattern)) sm)
           \<and> \<not> is_valid malicious_result
           \<and> severity (malicious_input_event text user_id now (fst pattern)) = HIGH
           \<and> event_type (malicious_input_event text user_id now (fst pattern)) = MALICIOUS_INPUT
           \<and> additional_data (malicious_input_event text user_id now (fst pattern)) =
               Some [(''input'', VStr (take 100 text)), (''pattern'', VStr (fst pattern))]
           \<and> length (take 100 text) \<le> 100
           \<and> user_error_counts (snd (validate_input py_float text input_type user_id now sm)) =
               user_error_counts sm
           \<and> security_events (snd (validate_input py_float text input_type user_id now sm)) =
               drop (length (security_events sm @
                       [malicious_input_event text user_id now (fst pattern)]) - 1000)
                 (security_events sm @ [malicious_input_event text user_id now (fst pattern)])"
proof -
  from first_match_Some [OF assms]
  obtain pattern where p: "first_match malicious_patterns (py_lower text) = Some pattern"
    by blast
  have v: "validate_input py_float text input_type user_id now sm =
             (malicious_result,
              log_security_event (malicious_input_event text user_id now (fst pattern)) sm)"
    using p by (rule validate_input_malicious)
  show ?thesis
    using p v
    by (simp add: malicious_input_event_def log_security_event_events)
qed

theorem validate_input_rejects_malicious_witness:
  "validate_input (\<lambda>s. None) (''hi '' @ ''<script>alert(1)</script>'' @ '' there'') AGE 7 0
       (new_security_manager 10) =
     (malicious_result,
      log_security_event
        (malicious_input_event (''hi '' @ ''<script>alert(1)</script>'' @ '' there'') 7 0
           ''<script[^>]*>.*?</script>'')
        (new_security_manager 10))"
proof -
  have "re_search (snd (hd malicious_patterns))
          (py_lower (''hi '' @ ''<script>alert(1)</script>'' @ '' there''))"
    using re_search_contains [OF script_tag_found, of "py_lower ''hi ''" "py_lower '' there''"]
    by (simp add: py_lower_def)
  then have h: "\<exists>p\<in>set malicious_patterns.
          re_search (snd p) (py_lower (''hi '' @ ''<script>alert(1)</script>'' @ '' there''))"
    by (intro bexI [of _ "hd malicious_patterns"]) (simp_all add: malicious_patterns_def)
  have f: "first_match malicious_patterns
             (py_lower (''hi '' @ ''<script>alert(1)</script>'' @ '' there'')) =
           Some (hd malicious_patterns)"
    using \<open>re_search (snd (hd malicious_patterns)) _\<close>
    by (simp add: malicious_patterns_def)
  from validate_input_rejects_malicious [OF h, of "\<lambda>s. None" AGE 7 0 "new_security_manager 10"] f
  show ?thesis
    by (auto simp: malicious_patterns_def)
qed

section \<open>Validation of input: the error counters\<close>

lemma first_match_None:
  "\<forall>p\<in>set ps. \<not> re_search (snd p) s \<Longrightarrow> first_match ps s = None"
  by (induction ps) auto

text \<open>
  C4, the malicious-pattern stage. A text that a malicious pattern rejects is a
  validation failure of \<^verbatim>\<open>validate_input\<close>, and it leaves the error counter of the
  user and the input type where it was.
\<close>

theorem validate_input_malicious_not_counted:
  "\<not> is_valid (fst (validate_input (\<lambda>s. None) ''<script>alert(1)</script>'' AGE 7 0
          (new_security_manager 10)))
   \<and> get_user_error_count (new_security_manager 10) 7 ''age'' = 0
   \<and> get_user_error_count
         (snd (validate_input (\<lambda>s. None) ''<script>alert(1)</script>'' AGE 7 0
            (new_security_manager 10))) 7 ''age'' = 0"
  by code_simp

text \<open>
  C4, as the code has it. Every failure that \<^verbatim>\<open>validate_input\<close> reports for a text in
  which no malicious pattern is found (a failure of the validator of the input type)
  increments the counter of the user and the input type by one and leaves every other
  counter; the event INVALID_INPUT_REPEATED, of severity LOW, is logged exactly when
  the incremented counter is 5, and otherwise no event is logged (so none at the
  sixth failure or at a later one).
\<close>

theorem validate_input_counts_failures:
  assumes "\<forall>p\<in>set malicious_patterns. \<not> re_search (snd p) (py_lower text)"
    and "\<not> is_valid (fst (validate_input py_float text input_type user_id now sm))"
  shows "get_user_error_count (snd (validate_input py_float text input_type user_id now sm))
             user_id (error_type_of input_type) =
           get_user_error_count sm user_id (error_type_of input_type) + 1
       \<and> (\<forall>u k. (u, k) \<noteq> (user_id, error_type_of input_type) \<longrightarrow>
             get_user_error_count (snd (validate_input py_float text input_type user_id now sm))
               u k = get_user_error_count sm u k)
       \<and> (get_user_error_count sm user_id (error_type_of input_type) + 1 = 5 \<longrightarrow>
             security_events (snd (validate_input py_float text input_type user_id now sm)) =
               security_events (log_security_event
                 (repeated_input_event user_id (error_type_of input_type) now) sm)
             \<and> severity (repeated_input_event user_id (error_type_of input_type) now) = LOW
             \<and> event_type (repeated_input_event user_id (error_type_of input_type) now) =
                 INVALID_INPUT_REPEATED)
       \<and> (get_user_error_count sm user_id (error_type_of input_type) + 1 \<noteq> 5 \<longrightarrow>
             security_events (snd (validate_input py_float text input_type user_id now sm)) =
               security_events sm)"
proof -
  have clean: "first_match malicious_patterns (py_lower text) = None"
    using assms(1) by (rule first_match_None)
  have snd_eq: "snd (validate_input py_float text input_type user_id now sm) =
                  track_validation_error user_id (error_type_of input_type) now sm"
    using validate_input_clean [OF clean, of py_float input_type user_id now sm] assms(2)
    by auto
  show ?thesis
    unfolding snd_eq
    by (simp add: track_validation_error_count track_validation_error_other
          track_validation_error_events repeated_input_event_def)
qed

theorem validate_input_counts_failures_witness:
  "get_user_error_count
     (snd (validate_input (\<lambda>s. None) ''150'' AGE 7 0
        ((new_security_manager 10)\<lparr>user_error_counts := [7 \<mapsto> [''age'' \<mapsto> 4]]\<rparr>)))
     7 ''age'' = 5
   \<and> security_events
     (snd (validate_input (\<lambda>s. None) ''150'' AGE 7 0
        ((new_security_manager 10)\<lparr>user_error_counts := [7 \<mapsto> [''age'' \<mapsto> 4]]\<rparr>))) =
     [repeated_input_event 7 ''age'' 0]"
proof -
  let ?sm = "(new_security_manager 10)\<lparr>user_error_counts := [7 \<mapsto> [''age'' \<mapsto> 4]]\<rparr>"
  have clean: "\<forall>p\<in>set malicious_patterns. \<not> re_search (snd p) (py_lower ''150'')"
    by code_simp
  have invalid: "\<not> is_valid (fst (validate_input (\<lambda>s. None) ''150'' AGE 7 0 ?sm))"
    by code_simp
  have count: "get_user_error_count ?sm 7 (error_type_of AGE) = 4"
    by (simp add: get_user_error_count_def new_security_manager_def)
  have events: "security_events (log_security_event (repeated_input_event 7 ''age'' 0) ?sm) =
                  [repeated_input_event 7 ''age'' 0]"
    by (simp add: log_security_event_def new_security_manager_def)
  from validate_input_counts_failures [OF clean invalid] count events
  show ?thesis by simp
qed

section \<open>Validation layer: progressive help\<close>

lemma enhance_validation_result_keeps:
  "retry_count (enhance_validation_result cfg texts r q n) = retry_count r"
  "is_progressive_help_triggered (enhance_validation_result cfg texts r q n) =
     is_progressive_help_triggered r"
  "is_valid (enhance_validation_result cfg texts r q n) = is_valid r"
  by (simp_all add: enhance_validation_result_def Let_def)

lemma get_retry_count_increment:
  "get_retry_count (increment_retry_count u q vl) u q = get_retry_count vl u q + 1"
  by (simp add: get_retry_count_def increment_retry_count_def Let_def split: option.splits)

lemma get_retry_count_reset:
  "get_retry_count (reset_retry_count u q vl) u q = 0"
  by (simp add: get_retry_count_def reset_retry_count_def split: option.splits)

lemma get_retry_count_security_manager [simp]:
  "get_retry_count (vl\<lparr>security_manager := sm\<rparr>) u q = get_retry_count vl u q"
  by (simp add: get_retry_count_def)

lemma config_increment [simp]: "config (increment_retry_count u q vl) = config vl"
  by (simp add: increment_retry_count_def Let_def)

lemma validate_question_response_rejected:
  assumes "\<not> input_accepted pf inp (question_type_mapping q)"
  shows "retry_count (fst (validate_question_response pf texts inp q u now vl)) =
           get_retry_count vl u q + 1"
    and "is_progressive_help_triggered (fst (validate_question_response pf texts inp q u now vl)) =
           (enable_progressive_assistance (config vl)
            \<and> max_retries_before_progressive_help (config vl) \<le> get_retry_count vl u q + 1)"
    and "\<not> is_valid (fst (validate_question_response pf texts inp q u now vl))"
    and "get_retry_count (snd (validate_question_response pf texts inp q u now vl)) u q =
           get_retry_count vl u q + 1"
    and "config (snd (validate_question_response pf texts inp q u now vl)) = config vl"
proof -
  obtain r sm where v: "validate_input pf inp (question_type_mapping q) u now (security_manager vl) = (r, sm)"
    by (cases "validate_input pf inp (question_type_mapping q) u now (security_manager vl)")
  have inv: "\<not> is_valid r"
    using validate_input_accepted [of pf inp "question_type_mapping q" u now "security_manager vl"]
      assms v by simp
  show "retry_count (fst (validate_question_response pf texts inp q u now vl)) =
           get_retry_count vl u q + 1"
    using v inv
    by (simp add: validate_question_response_def Let_def enhance_validation_result_keeps)
  show "is_progressive_help_triggered (fst (validate_question_response pf texts inp q u now vl)) =
           (enable_progressive_assistance (config vl)
            \<and> max_retries_before_progressive_help (config vl) \<le> get_retry_count vl u q + 1)"
    using v inv
    by (simp add: validate_question_response_def Let_def enhance_validation_result_keeps)
  show "\<not> is_valid (fst (validate_question_response pf texts inp q u now vl))"
    using v inv
    by (simp add: validate_question_response_def Let_def enhance_validation_result_keeps)
  show "get_retry_count (snd (validate_question_response pf texts inp q u now vl)) u q =
           get_retry_count vl u q + 1"
    using v inv
    by (simp add: validate_question_response_def Let_def get_retry_count_increment)
  show "config (snd (validate_question_response pf texts inp q u now vl)) = config vl"
    using v inv
    by (simp add: validate_question_response_def Let_def)
qed

lemma validate_question_response_accepted:
  assumes "input_accepted pf inp (question_type_mapping q)"
  shows "retry_count (fst (validate_question_response pf texts inp q u now vl)) = 0"
    and "\<not> is_progressive_help_triggered (fst (validate_question_response pf texts inp q u now vl))"
    and "is_valid (fst (validate_question_response pf texts inp q u now vl))"
    and "get_retry_count (snd (validate_question_response pf texts inp q u now vl)) u q = 0"
proof -
  obtain r sm where v: "validate_input pf inp (question_type_mapping q) u now (security_manager vl) = (r, sm)"
    by (cases "validate_input pf inp (question_type_mapping q) u now (security_manager vl)")
  have ok: "is_valid r"
    using validate_input_accepted [of pf inp "question_type_mapping q" u now "security_manager vl"]
      assms v by simp
  show "retry_count (fst (validate_question_response pf texts inp q u now vl)) = 0"
    using v ok by (simp add: validate_question_response_def Let_def)
  show "\<not> is_progressive_help_triggered (fst (validate_question_response pf texts inp q u now vl))"
    using v ok by (simp add: validate_question_response_def Let_def)
  show "is_valid (fst (validate_question_response pf texts inp q u now vl))"
    using v ok by (simp add: validate_question_response_def Let_def)
  show "get_retry_count (snd (validate_question_response pf texts inp q u now vl)) u q = 0"
    using v ok by (simp add: validate_question_response_def Let_def get_retry_count_reset)
qed

lemma validate_question_responses_rejected:
  assumes "\<forall>s\<in>set submissions. \<not> input_accepted pf (fst s) (question_type_mapping q)"
  shows "length (fst (validate_question_responses pf texts submissions q u vl)) =
           length submissions
       \<and> get_retry_count (snd (validate_question_responses pf texts submissions q u vl)) u q =
           get_retry_count vl u q + int (length submissions)
       \<and> config (snd (validate_question_responses pf texts submissions q u vl)) = config vl
       \<and> (\<forall>k<length submissions.
             retry_count (fst (validate_question_responses pf texts submissions q u vl) ! k) =
               get_retry_count vl u q + int k + 1
             \<and> is_progressive_help_triggered
                 (fst (validate_question_responses pf texts submissions q u vl) ! k) =
               (enable_progressive_assistance (config vl)
                \<and> max_retries_before_progressive_help (config vl) \<le>
                    get_retry_count vl u q + int k + 1))"
  using assms
proof (induction submissions arbitrary: vl)
  case Nil
  then show ?case by simp
next
  case (Cons s submissions)
  obtain r vl1 where step: "validate_question_response pf texts (fst s) q u (snd s) vl = (r, vl1)"
    by (cases "validate_question_response pf texts (fst s) q u (snd s) vl")
  obtain rs vl2 where rest: "validate_question_responses pf texts submissions q u vl1 = (rs, vl2)"
    by (cases "validate_question_responses pf texts submissions q u vl1")
  have rej: "\<not> input_accepted pf (fst s) (question_type_mapping q)"
    using Cons.prems by simp
  note facts = validate_question_response_rejected [OF rej, of texts u "snd s" vl]
  have r1: "retry_count r = get_retry_count vl u q + 1"
    and r2: "is_progressive_help_triggered r =
           (enable_progressive_assistance (config vl)
            \<and> max_retries_before_progressive_help (config vl) \<le> get_retry_count vl u q + 1)"
    and c1: "get_retry_count vl1 u q = get_retry_count vl u q + 1"
    and cfg: "config vl1 = config vl"
    using facts step by simp_all
  have ih: "length rs = length submissions
       \<and> get_retry_count vl2 u q = get_retry_count vl1 u q + int (length submissions)
       \<and> config vl2 = config vl1
       \<and> (\<forall>k<length submissions.
             retry_count (rs ! k) = get_retry_count vl1 u q + int k + 1
             \<and> is_progressive_help_triggered (rs ! k) =
               (enable_progressive_assistance (config vl1)
                \<and> max_retries_before_progressive_help (config vl1) \<le>
                    get_retry_count vl1 u q + int k + 1))"
    using Cons.IH [of vl1] Cons.prems rest by simp
  have whole: "validate_question_responses pf texts (s # submissions) q u vl = (r # rs, vl2)"
    using step rest by simp
  show ?case
    unfolding whole
  proof (intro conjI allI impI)
    show "length (fst (r # rs, vl2)) = length (s # submissions)" using ih by simp
    show "get_retry_count (snd (r # rs, vl2)) u q =
            get_retry_count vl u q + int (length (s # submissions))"
      using ih c1 by simp
    show "config (snd (r # rs, vl2)) = config vl" using ih cfg by simp
  next
    fix k assume k: "k < length (s # submissions)"
    show "retry_count (fst (r # rs, vl2) ! k) = get_retry_count vl u q + int k + 1"
    proof (cases k)
      case 0
      then show ?thesis using r1 by simp
    next
      case (Suc j)
      with k ih c1 show ?thesis by simp
    qed
    show "is_progressive_help_triggered (fst (r # rs, vl2) ! k) =
            (enable_progressive_assistance (config vl)
             \<and> max_retries_before_progressive_help (config vl) \<le>
                 get_retry_count vl u q + int k + 1)"
    proof (cases k)
      case 0
      then show ?thesis using r2 by simp
    next
      case (Suc j)
      with k ih c1 cfg show ?thesis by simp
    qed
  qed
qed


text \<open>
  C2, the sixth failure. Six consecutive invalid submissions for the scaled question
  type by one user: the sixth result has \<^verbatim>\<open>is_progressive_help_triggered\<close> set as
  well.
\<close>

theorem sixth_failure_triggers_progressive_help:
  "\<not> input_accepted (\<lambda>s. None) ''9'' (question_type_mapping AMS_SCALE)
   \<and> is_progressive_help_triggered
       (fst (validate_question_responses (\<lambda>s. None) plain_texts
               [(''9'', 0), (''9'', 1), (''9'', 2), (''9'', 3), (''9'', 4), (''9'', 5)]
               AMS_SCALE 1 (new_validation_layer (new_security_manager 10))) ! 5)"
proof -
  let ?vl = "new_validation_layer (new_security_manager 10)"
  have rej: "\<not> input_accepted (\<lambda>s. None) ''9'' (question_type_mapping AMS_SCALE)"
    by code_simp
  then have all: "\<forall>s\<in>set [(''9'', 0::int), (''9'', 1), (''9'', 2), (''9'', 3), (''9'', 4), (''9'', 5)].
          \<not> input_accepted (\<lambda>s. None) (fst s) (question_type_mapping AMS_SCALE)"
    by simp
  have start: "get_retry_count ?vl 1 AMS_SCALE = 0"
    by (simp add: get_retry_count_def new_validation_layer_def)
  have cfg: "enable_progressive_assistance (config ?vl)"
    "max_retries_before_progressive_help (config ?vl) = 5"
    by (simp_all add: new_validation_layer_def default_ValidationConfig_def)
  from validate_question_responses_rejected [OF all, of plain_texts 1 ?vl] start cfg rej
  show ?thesis by simp
qed

text \<open>
  C2, as the code has it. Consecutive invalid submissions of one user for one question
  type, from a retry counter of 0 and with progressive assistance enabled at the
  threshold of 5: the result of failure number \<open>n\<close> carries the retry count \<open>n\<close> and
  has \<^verbatim>\<open>is_progressive_help_triggered\<close> set exactly when \<open>n\<close> is 5 or more (not on the
  failures 1 to 4; on the fifth and on every later one). The counter of the pair then
  stands at the number of failures, and the next valid submission returns a result
  with retry count 0, without progressive help, and resets the counter to 0.
\<close>

theorem progressive_help_from_fifth_failure:
  assumes "\<forall>s\<in>set submissions.
             \<not> input_accepted py_float (fst s) (question_type_mapping question_type)"
    and "get_retry_count vl user_id question_type = 0"
    and "enable_progressive_assistance (config vl)"
    and "max_retries_before_progressive_help (config vl) = 5"
  shows "(\<forall>k<length submissions.
            is_progressive_help_triggered
              (fst (validate_question_responses py_float texts submissions question_type
                      user_id vl) ! k) = (5 \<le> k + 1)
            \<and> retry_count
              (fst (validate_question_responses py_float texts submissions question_type
                      user_id vl) ! k) = int k + 1)
       \<and> get_retry_count
           (snd (validate_question_responses py_float texts submissions question_type
                   user_id vl)) user_id question_type = int (length submissions)
       \<and> (\<forall>inp now.
            input_accepted py_float inp (question_type_mapping question_type) \<longrightarrow>
              retry_count (fst (validate_question_response py_float texts inp question_type
                user_id now
                (snd (validate_question_responses py_float texts submissions question_type
                        user_id vl)))) = 0
              \<and> \<not> is_progressive_help_triggered
                  (fst (validate_question_response py_float texts inp question_type
                    user_id now
                    (snd (validate_question_responses py_float texts submissions question_type
                            user_id vl))))
              \<and> get_retry_count
                  (snd (validate_question_response py_float texts inp question_type
                    user_id now
                    (snd (validate_question_responses py_float texts submissions question_type
                            user_id vl)))) user_id question_type = 0)"
proof -
  note run = validate_question_responses_rejected [OF assms(1), of texts user_id vl]
  have a: "\<forall>k<length submissions.
            is_progressive_help_triggered
              (fst (validate_question_responses py_float texts submissions question_type
                      user_id vl) ! k) = (5 \<le> k + 1)
            \<and> retry_count
              (fst (validate_question_responses py_float texts submissions question_type
                      user_id vl) ! k) = int k + 1"
    using run assms(2,3,4) by auto
  have b: "get_retry_count
           (snd (validate_question_responses py_float texts submissions question_type
                   user_id vl)) user_id question_type = int (length submissions)"
    using run assms(2) by simp
  show ?thesis
    using a b validate_question_response_accepted [of py_float _ question_type texts user_id]
    by blast
qed

theorem progressive_help_from_fifth_failure_witness:
  "\<not> is_progressive_help_triggered
       (fst (validate_question_responses (\<lambda>s. None) plain_texts
               [(''9'', 0), (''abc'', 1), (''0'', 2), (''6'', 3), (''1.5'', 4), (''9'', 5)]
               AMS_SCALE 1 (new_validation_layer (new_security_manager 10))) ! 3)
   \<and> is_progressive_help_triggered
       (fst (validate_question_responses (\<lambda>s. None) plain_texts
               [(''9'', 0), (''abc'', 1), (''0'', 2), (''6'', 3), (''1.5'', 4), (''9'', 5)]
               AMS_SCALE 1 (new_validation_layer (new_security_manager 10))) ! 4)
   \<and> get_retry_count
       (snd (validate_question_response (\<lambda>s. None) plain_texts ''3'' AMS_SCALE 1 6
          (snd (validate_question_responses (\<lambda>s. None) plain_texts
               [(''9'', 0), (''abc'', 1), (''0'', 2), (''6'', 3), (''1.5'', 4), (''9'', 5)]
               AMS_SCALE 1 (new_validation_layer (new_security_manager 10)))))) 1 AMS_SCALE = 0"
proof -
  let ?vl = "new_validation_layer (new_security_manager 10)"
  have all: "\<forall>s\<in>set [(''9'', 0::int), (''abc'', 1), (''0'', 2), (''6'', 3), (''1.5'', 4), (''9'', 5)].
          \<not> input_accepted (\<lambda>s. None) (fst s) (question_type_mapping AMS_SCALE)"
    by code_simp
  have ok: "input_accepted (\<lambda>s. None) ''3'' (question_type_mapping AMS_SCALE)"
    by code_simp
  have start: "get_retry_count ?vl 1 AMS_SCALE = 0"
    by (simp add: get_retry_count_def new_validation_layer_def)
  have cfg: "enable_progressive_assistance (config ?vl)"
    "max_retries_before_progressive_help (config ?vl) = 5"
    by (simp_all add: new_validation_layer_def default_ValidationConfig_def)
  from progressive_help_from_fifth_failure [OF all start cfg, of plain_texts] ok
  show ?thesis by simp
qed

end
